theory Spec2Isabelle
  imports Main "HOL-Library.Char_ord" "HOL-Library.List_Lexorder" "HOL-Library.Code_Target_Numeral"
begin

section \<open>PocketCare: the data controller and its derived reminders\<close>

text \<open>
  The development embeds the hook \<^verbatim>\<open>useIndexedDB\<close> (hooks/useIndexDB.ts), the helpers of
  utils/index.ts it calls, the notification modal and the appointment page's status
  handlers. Conventions of the embedding:

  \<^item> A JavaScript \<^verbatim>\<open>Date\<close> is its time value in milliseconds since the epoch, an
    \<open>int\<close> of magnitude at most 8.64e15; \<open>None\<close> is the Invalid Date (time value NaN).
    Every construction of a \<^verbatim>\<open>Date\<close> from a number clips to that range.
  \<^item> The time zone is the host's: the environment gives the offset of local time from UTC
    at every instant and for every local wall-clock time (\<^verbatim>\<open>LocalTZA\<close> of ECMAScript), so
    daylight-saving transitions are whatever the host says they are.
  \<^item> The clock, \<^verbatim>\<open>Math.random\<close> and the availability of the object store are inputs
    of the program: the environment gives the value of the n-th clock reading (a valid
    time value), the string of the n-th random number and whether the n-th store request
    succeeds, and the state counts how many of each have been consumed.
  \<^item> An \<^verbatim>\<open>async\<close> function is a state transformer that returns either the error it
    throws (\<open>Inl\<close>) or its value (\<open>Inr\<close>), with the state it leaves behind in both cases.
    Calls run one at a time; interleaving at \<^verbatim>\<open>await\<close> points is not modelled.
\<close>

subsection \<open>Types (types/index.ts)\<close>

type_synonym date = "int option"

datatype reminder_type = Medication | Appointment

datatype reminder_status = Pending | Taken | Snoozed | Skipped | Missed

datatype appointment_status = Upcoming | Completed | AppointmentMissed

datatype reminderAction = Take | Snooze | Skip

record medication =
  m_id :: string
  m_name :: string
  m_dosage :: string
  m_frequency :: string
  m_times :: "string list"
  m_notes :: "string option"
  m_createdAt :: date

record reminder =
  r_id :: string
  r_type :: reminder_type
  r_title :: string
  r_description :: "string option"
  scheduledTime :: date
  r_status :: reminder_status
  snoozedUntil :: "date option"
  snoozeCount :: int
  relatedId :: "string option"
  r_createdAt :: date

record checklistItem =
  c_id :: string
  c_text :: string
  completed :: bool

record appointment =
  a_id :: string
  a_title :: string
  a_doctor :: "string option"
  a_location :: string
  dateTime :: date
  a_notes :: "string option"
  checklist :: "checklistItem list"
  a_status :: appointment_status
  a_createdAt :: date

record weeklyStats =
  weekStartDate :: date
  weekEndDate :: date
  medicationsTaken :: nat
  medicationsMissed :: nat
  medicationsSnoozed :: nat
  appointmentsAttended :: nat
  appointmentsMissed :: nat
  totalReminders :: nat

text \<open>The argument types \<^verbatim>\<open>Omit<Medication, 'id' | 'createdAt'>\<close>,
  \<^verbatim>\<open>Omit<Appointment, 'id' | 'createdAt' | 'status'>\<close> and
  \<^verbatim>\<open>Omit<Reminder, 'id' | 'createdAt' | 'snoozeCount' | 'status'>\<close>.\<close>

record medication_fields =
  mf_name :: string
  mf_dosage :: string
  mf_frequency :: string
  mf_times :: "string list"
  mf_notes :: "string option"

record appointment_fields =
  af_title :: string
  af_doctor :: "string option"
  af_location :: string
  af_dateTime :: date
  af_notes :: "string option"
  af_checklist :: "checklistItem list"

record reminder_fields =
  rf_type :: reminder_type
  rf_title :: string
  rf_description :: "string option"
  rf_scheduledTime :: date
  rf_snoozedUntil :: "date option"
  rf_relatedId :: "string option"

subsection \<open>Environment, state and the shape of an asynchronous call\<close>

datatype error = StorageUnavailable | DuplicateKey

text \<open>What the host decides: \<open>localTZA e t True\<close> is the offset of local time from UTC
  at the instant \<open>t\<close>, \<open>localTZA e w False\<close> the offset the host uses to resolve the local
  wall-clock time \<open>w\<close> to an instant, both in milliseconds; \<open>hostNumber\<close> is the conversion
  of a string to a number outside the digit strings read below; \<open>clock e n\<close> is the n-th
  clock reading; \<open>random e n\<close> is the n-th \<^verbatim>\<open>Math.random().toString(36)\<close>;
  \<open>storage_ok e n\<close> says whether the n-th store request succeeds.\<close>

record env =
  localTZA :: "int \<Rightarrow> bool \<Rightarrow> int"
  hostNumber :: "string \<Rightarrow> int option"
  clock :: "nat \<Rightarrow> int"
  random :: "nat \<Rightarrow> string"
  storage_ok :: "nat \<Rightarrow> bool"

text \<open>The three React state cells (the in-memory mirrors), the three object stores of
  the database (each kept in key order, as \<^verbatim>\<open>getAll\<close> returns it), and the counters of
  consumed environment inputs.\<close>

record sys =
  reminders :: "reminder list"
  appointments :: "appointment list"
  medications :: "medication list"
  db_reminders :: "reminder list"
  db_appointments :: "appointment list"
  db_medications :: "medication list"
  clock_reads :: nat
  random_draws :: nat
  store_requests :: nat

type_synonym 'a prog = "sys \<Rightarrow> (error + 'a) \<times> sys"

definition succeed :: "'a \<Rightarrow> 'a prog" where
  "succeed x s = (Inr x, s)"

definition throw :: "error \<Rightarrow> 'a prog" where
  "throw err s = (Inl err, s)"

definition andThen :: "'a prog \<Rightarrow> ('a \<Rightarrow> 'b prog) \<Rightarrow> 'b prog" where
  "andThen m f s = (case m s of (Inl err, s') \<Rightarrow> (Inl err, s') | (Inr x, s') \<Rightarrow> f x s')"

text \<open>\<^verbatim>\<open>new Date()\<close> and \<^verbatim>\<open>Date.now()\<close>: the next clock reading.\<close>

definition now :: "env \<Rightarrow> int prog" where
  "now e s = (Inr (clock e (clock_reads s)), s\<lparr>clock_reads := Suc (clock_reads s)\<rparr>)"

text \<open>\<^verbatim>\<open>Math.random().toString(36).substring(2, 11)\<close>: at most nine characters of the
  next random string, from its third on.\<close>

definition randomSuffix :: "env \<Rightarrow> string prog" where
  "randomSuffix e s =
     (Inr (take 9 (drop 2 (random e (random_draws s)))), s\<lparr>random_draws := Suc (random_draws s)\<rparr>)"

subsection \<open>Utilities (utils/index.ts)\<close>

text \<open>Decimal rendering of a number in a template literal.\<close>

definition digitChar :: "nat \<Rightarrow> char" where
  "digitChar d = ''0123456789'' ! d"

fun digits :: "nat \<Rightarrow> string" where
  "digits n = (if n < 10 then [digitChar n] else digits (n div 10) @ [digitChar (n mod 10)])"

definition numberToString :: "int \<Rightarrow> string" where
  "numberToString i = (if i < 0 then CHR ''-'' # digits (nat (- i)) else digits (nat i))"

definition generateId :: "env \<Rightarrow> string prog" where
  "generateId e =
     andThen (now e) (\<lambda>stamp.
     andThen (randomSuffix e) (\<lambda>suffix.
     succeed (numberToString stamp @ ''-'' @ suffix)))"

subsection \<open>Dates (the \<^verbatim>\<open>Date\<close> built-in)\<close>

definition msPerDay :: int where
  "msPerDay = 86400000"

definition maxTime :: int where
  "maxTime = 8640000000000000"

text \<open>\<^verbatim>\<open>TimeClip\<close>: a time value beyond the range of \<^verbatim>\<open>Date\<close> is NaN.\<close>

definition timeClip :: "int \<Rightarrow> date" where
  "timeClip v = (if \<bar>v\<bar> \<le> maxTime then Some v else None)"

text \<open>\<^verbatim>\<open>new Date(d)\<close> for a date \<open>d\<close>.\<close>

definition copyDate :: "date \<Rightarrow> date" where
  "copyDate d = (case d of None \<Rightarrow> None | Some t \<Rightarrow> timeClip t)"

text \<open>\<^verbatim>\<open>a < b\<close> and \<^verbatim>\<open>a <= b\<close> on dates compare the time values; a comparison with
  an Invalid Date is false.\<close>

definition dateLess :: "date \<Rightarrow> date \<Rightarrow> bool" where
  "dateLess a b = (case a of None \<Rightarrow> False | Some x \<Rightarrow> (case b of None \<Rightarrow> False | Some y \<Rightarrow> x < y))"

definition dateLessEq :: "date \<Rightarrow> date \<Rightarrow> bool" where
  "dateLessEq a b = (case a of None \<Rightarrow> False | Some x \<Rightarrow> (case b of None \<Rightarrow> False | Some y \<Rightarrow> x \<le> y))"

text \<open>The arithmetic of \<^verbatim>\<open>MakeTime\<close> and \<^verbatim>\<open>MakeDate\<close> is that of IEEE 754 doubles. All the
  numbers involved are integers; \<open>toDouble x\<close> is the double nearest to the integer \<open>x\<close>
  (ties to the even significand of 53 bits), and \<open>None\<close> when that is infinite. Up to
  \<open>2^53 = 9007199254740992\<close> every integer is a double.\<close>

fun bitLength :: "nat \<Rightarrow> nat" where
  "bitLength n = (if n = 0 then 0 else Suc (bitLength (n div 2)))"

definition toDouble :: "int \<Rightarrow> int option" where
  "toDouble x =
     (let a = \<bar>x\<bar> in
      if a \<le> 9007199254740992 then Some x
      else
        (let k = bitLength (nat a) - 53;
             q = a div 2 ^ k;
             r = a mod 2 ^ k;
             q' = (if 2 ^ k < 2 * r \<or> (2 * r = 2 ^ k \<and> odd q) then q + 1 else q)
         in if 2 ^ 1024 \<le> q' * 2 ^ k then None
            else Some (if x < 0 then - (q' * 2 ^ k) else q' * 2 ^ k)))"

text \<open>\<^verbatim>\<open>MakeTime(hour, min, sec, ms)\<close>; an argument that is NaN or infinite (\<open>None\<close>)
  makes the result NaN.\<close>

definition makeTime :: "int option \<Rightarrow> int option \<Rightarrow> int \<Rightarrow> int \<Rightarrow> int option" where
  "makeTime hour minute sec ms =
     Option.bind hour (\<lambda>h.
     Option.bind minute (\<lambda>m.
     Option.bind (toDouble (h * 3600000)) (\<lambda>a.
     Option.bind (toDouble (m * 60000)) (\<lambda>b.
     Option.bind (toDouble (a + b)) (\<lambda>c.
     Option.bind (toDouble (sec * 1000)) (\<lambda>d.
     Option.bind (toDouble (c + d)) (\<lambda>t.
     toDouble (t + ms))))))))"

text \<open>\<^verbatim>\<open>MakeDate(day, time)\<close>.\<close>

definition makeDate :: "int \<Rightarrow> int \<Rightarrow> int option" where
  "makeDate day time = Option.bind (toDouble (day * msPerDay)) (\<lambda>a. toDouble (a + time))"

text \<open>\<^verbatim>\<open>LocalTime(t)\<close>, the local wall-clock reading of the instant \<open>t\<close>, and \<^verbatim>\<open>UTC(w)\<close>,
  the instant the host resolves the wall-clock time \<open>w\<close> to. Both are counted in
  milliseconds like a time value. (The host's offsets are below a day in magnitude, so the
  sums are exact.)\<close>

definition localTime :: "env \<Rightarrow> int \<Rightarrow> int" where
  "localTime e t = t + localTZA e t True"

definition utc :: "env \<Rightarrow> int \<Rightarrow> int" where
  "utc e w = w - localTZA e w False"

text \<open>\<^verbatim>\<open>d.setHours(hour, min, sec, ms)\<close>: the local day of \<open>d\<close>, the given time of day.\<close>

definition setHours :: "env \<Rightarrow> date \<Rightarrow> int option \<Rightarrow> int option \<Rightarrow> int \<Rightarrow> int \<Rightarrow> date" where
  "setHours e d hour minute sec ms =
     (case d of
        None \<Rightarrow> None
      | Some t \<Rightarrow>
          Option.bind (makeTime hour minute sec ms) (\<lambda>time.
          Option.bind (makeDate (localTime e t div msPerDay) time) (\<lambda>local.
          timeClip (utc e local))))"

text \<open>\<^verbatim>\<open>d.setDate(d.getDate() + k)\<close>: \<^verbatim>\<open>MakeDay\<close> counts the days from the first of the
  month of \<open>d\<close>, so the new local day is \<open>k\<close> days from that of \<open>d\<close>, and the local time of
  day is kept.\<close>

definition addDays :: "env \<Rightarrow> date \<Rightarrow> int \<Rightarrow> date" where
  "addDays e d k =
     (case d of
        None \<Rightarrow> None
      | Some t \<Rightarrow>
          Option.bind (makeDate (localTime e t div msPerDay + k) (localTime e t mod msPerDay)) (\<lambda>local.
          timeClip (utc e local)))"

text \<open>\<^verbatim>\<open>WeekDay\<close> of a wall-clock time, 0 for Sunday (the epoch was a Thursday), and
  \<^verbatim>\<open>d.getDay()\<close> of a valid date.\<close>

definition weekDay :: "int \<Rightarrow> int" where
  "weekDay w = (w div msPerDay + 4) mod 7"

definition getDay :: "env \<Rightarrow> int \<Rightarrow> int" where
  "getDay e t = weekDay (localTime e t)"

definition addMinutes :: "int \<Rightarrow> int \<Rightarrow> int" where
  "addMinutes t minutes = t + minutes * 60000"

text \<open>\<^verbatim>\<open>start.setDate(current.getDate() - dayOfWeek)\<close> changes \<open>start\<close>, a copy of
  \<open>current\<close>, and \<^verbatim>\<open>end.setDate(start.getDate() + 6)\<close> changes \<open>end\<close>, a copy of \<open>start\<close>.
  With an Invalid Date for \<open>current\<close> the day of the week is NaN and both bounds are
  invalid.\<close>

definition getWeekBounds :: "env \<Rightarrow> date \<Rightarrow> date \<times> date" where
  "getWeekBounds e d =
     (let current = copyDate d in
      case current of
        None \<Rightarrow> (None, None)
      | Some t \<Rightarrow>
          (let dayOfWeek = getDay e t;
               start = setHours e (addDays e (copyDate current) (- dayOfWeek)) (Some 0) (Some 0) 0 0;
               end = setHours e (addDays e (copyDate start) 6) (Some 23) (Some 59) 59 999
           in (start, end)))"

subsection \<open>The object stores (IndexedDB, keyPath \<^verbatim>\<open>id\<close>)\<close>

text \<open>An object store holds at most one record per key and lists its records in key
  order. \<^verbatim>\<open>put\<close> inserts or replaces, \<^verbatim>\<open>add\<close> rejects a key that is present,
  \<^verbatim>\<open>delete\<close> of an absent key succeeds.\<close>

fun put_record :: "('a \<Rightarrow> string) \<Rightarrow> 'a \<Rightarrow> 'a list \<Rightarrow> 'a list" where
  "put_record key item [] = [item]"
| "put_record key item (x # xs) =
     (if key item < key x then item # x # xs
      else if key item = key x then item # xs
      else x # put_record key item xs)"

definition has_key :: "('a \<Rightarrow> string) \<Rightarrow> string \<Rightarrow> 'a list \<Rightarrow> bool" where
  "has_key key k xs = (k \<in> set (map key xs))"

definition delete_record :: "('a \<Rightarrow> string) \<Rightarrow> string \<Rightarrow> 'a list \<Rightarrow> 'a list" where
  "delete_record key k xs = filter (\<lambda>x. key x \<noteq> k) xs"

text \<open>A store name: how to read the store in the state, how to change it, and its key path.\<close>

datatype 'a storeName =
  StoreName (contents: "sys \<Rightarrow> 'a list")
            (modify: "('a list \<Rightarrow> 'a list) \<Rightarrow> sys \<Rightarrow> sys")
            (keyPath: "'a \<Rightarrow> string")

definition reminders_store :: "reminder storeName" where
  "reminders_store = StoreName db_reminders db_reminders_update r_id"

definition appointments_store :: "appointment storeName" where
  "appointments_store = StoreName db_appointments db_appointments_update a_id"

definition medications_store :: "medication storeName" where
  "medications_store = StoreName db_medications db_medications_update m_id"

text \<open>\<^verbatim>\<open>openDatabase\<close> followed by opening the transaction and issuing the request: the
  n-th request fails when the environment says the store is unavailable then.\<close>

definition openDatabase :: "env \<Rightarrow> unit prog" where
  "openDatabase e s =
     ((if storage_ok e (store_requests s) then Inr () else Inl StorageUnavailable),
      s\<lparr>store_requests := Suc (store_requests s)\<rparr>)"

definition getAll :: "env \<Rightarrow> 'a storeName \<Rightarrow> 'a list prog" where
  "getAll e st = andThen (openDatabase e) (\<lambda>_ s. (Inr (contents st s), s))"

definition add :: "env \<Rightarrow> 'a storeName \<Rightarrow> 'a \<Rightarrow> 'a prog" where
  "add e st item =
     andThen (openDatabase e) (\<lambda>_ s.
       if has_key (keyPath st) (keyPath st item) (contents st s) then (Inl DuplicateKey, s)
       else (Inr item, modify st (put_record (keyPath st) item) s))"

definition update :: "env \<Rightarrow> 'a storeName \<Rightarrow> 'a \<Rightarrow> 'a prog" where
  "update e st item =
     andThen (openDatabase e) (\<lambda>_ s. (Inr item, modify st (put_record (keyPath st) item) s))"

definition remove :: "env \<Rightarrow> 'a storeName \<Rightarrow> string \<Rightarrow> unit prog" where
  "remove e st k =
     andThen (openDatabase e) (\<lambda>_ s. (Inr (), modify st (delete_record (keyPath st) k) s))"

subsection \<open>The state setters\<close>

definition setReminders :: "(reminder list \<Rightarrow> reminder list) \<Rightarrow> unit prog" where
  "setReminders f s = (Inr (), s\<lparr>reminders := f (reminders s)\<rparr>)"

definition setAppointments :: "(appointment list \<Rightarrow> appointment list) \<Rightarrow> unit prog" where
  "setAppointments f s = (Inr (), s\<lparr>appointments := f (appointments s)\<rparr>)"

definition setMedications :: "(medication list \<Rightarrow> medication list) \<Rightarrow> unit prog" where
  "setMedications f s = (Inr (), s\<lparr>medications := f (medications s)\<rparr>)"

subsection \<open>Reminder operations\<close>

definition addReminder :: "env \<Rightarrow> reminder_fields \<Rightarrow> reminder prog" where
  "addReminder e reminder =
     andThen (generateId e) (\<lambda>newId.
     andThen (now e) (\<lambda>created.
     let newReminder =
           \<lparr> r_id = newId, r_type = rf_type reminder, r_title = rf_title reminder,
             r_description = rf_description reminder,
             scheduledTime = rf_scheduledTime reminder, r_status = Pending,
             snoozedUntil = rf_snoozedUntil reminder, snoozeCount = 0,
             relatedId = rf_relatedId reminder, r_createdAt = Some created \<rparr>
     in andThen (add e reminders_store newReminder) (\<lambda>_.
        andThen (setReminders (\<lambda>prev. prev @ [newReminder])) (\<lambda>_.
        succeed newReminder))))"

definition updateReminder :: "env \<Rightarrow> reminder \<Rightarrow> unit prog" where
  "updateReminder e reminder =
     andThen (update e reminders_store reminder) (\<lambda>_.
     setReminders (map (\<lambda>r. if r_id r = r_id reminder then reminder else r)))"

definition deleteReminder :: "env \<Rightarrow> string \<Rightarrow> unit prog" where
  "deleteReminder e k =
     andThen (remove e reminders_store k) (\<lambda>_.
     setReminders (filter (\<lambda>r. r_id r \<noteq> k)))"

subsection \<open>Weekly statistics\<close>

text \<open>The filter of \<^verbatim>\<open>getWeeklyStats\<close>:
  \<^verbatim>\<open>const scheduled = new Date(r.scheduledTime); return scheduled >= start && scheduled <= end\<close>.\<close>

definition inWeek :: "date \<Rightarrow> date \<Rightarrow> reminder \<Rightarrow> bool" where
  "inWeek start end r =
     (let scheduled = copyDate (scheduledTime r)
      in dateLessEq start scheduled \<and> dateLessEq scheduled end)"

definition weekReminders :: "env \<Rightarrow> sys \<Rightarrow> reminder list" where
  "weekReminders e s =
     (let (start, end) = getWeekBounds e (Some (clock e (clock_reads s)))
      in filter (inWeek start end) (reminders s))"

definition getWeeklyStats :: "env \<Rightarrow> sys \<Rightarrow> weeklyStats \<times> sys" where
  "getWeeklyStats e s =
     (let (start, end) = getWeekBounds e (Some (clock e (clock_reads s)));
          weekRs = filter (inWeek start end) (reminders s);
          medicationReminders = filter (\<lambda>r. r_type r = Medication) weekRs;
          appointmentReminders = filter (\<lambda>r. r_type r = Appointment) weekRs
      in (\<lparr> weekStartDate = start, weekEndDate = end,
             medicationsTaken = length (filter (\<lambda>r. r_status r = Taken) medicationReminders),
             medicationsMissed =
               length (filter (\<lambda>r. r_status r = Missed \<or> r_status r = Skipped) medicationReminders),
             medicationsSnoozed =
               length (filter (\<lambda>r. r_status r = Snoozed \<or> snoozeCount r > 0) medicationReminders),
             appointmentsAttended = length (filter (\<lambda>r. r_status r = Taken) appointmentReminders),
             appointmentsMissed =
               length (filter (\<lambda>r. r_status r = Missed \<or> r_status r = Skipped) appointmentReminders),
             totalReminders = length weekRs \<rparr>,
          s\<lparr>clock_reads := Suc (clock_reads s)\<rparr>))"

subsection \<open>Appointment operations\<close>

definition addAppointment :: "env \<Rightarrow> appointment_fields \<Rightarrow> appointment prog" where
  "addAppointment e appointment =
     andThen (generateId e) (\<lambda>newId.
     andThen (now e) (\<lambda>created.
     let newAppointment =
           \<lparr> a_id = newId, a_title = af_title appointment, a_doctor = af_doctor appointment,
             a_location = af_location appointment, dateTime = af_dateTime appointment,
             a_notes = af_notes appointment, checklist = af_checklist appointment,
             a_status = Upcoming, a_createdAt = Some created \<rparr>
     in andThen (add e appointments_store newAppointment) (\<lambda>_.
        andThen (setAppointments (\<lambda>prev. prev @ [newAppointment])) (\<lambda>_.
        andThen (addReminder e
                  \<lparr> rf_type = Appointment,
                    rf_title = ''Appointment: '' @ af_title appointment,
                    rf_description =
                      Some (af_location appointment @
                            (case af_doctor appointment of
                               None \<Rightarrow> []
                             | Some doctor \<Rightarrow> if doctor = [] then [] else '' with '' @ doctor)),
                    rf_scheduledTime =
                      (case copyDate (af_dateTime appointment) of
                         None \<Rightarrow> None
                       | Some t \<Rightarrow> timeClip (t - 60 * 60 * 1000)),
                    rf_snoozedUntil = None,
                    rf_relatedId = Some (a_id newAppointment) \<rparr>) (\<lambda>_.
        succeed newAppointment)))))"

definition updateAppointment :: "env \<Rightarrow> appointment \<Rightarrow> unit prog" where
  "updateAppointment e appointment =
     andThen (update e appointments_store appointment) (\<lambda>_.
     setAppointments (map (\<lambda>a. if a_id a = a_id appointment then appointment else a)))"

text \<open>The loop \<^verbatim>\<open>for (const reminder of relatedReminders) await deleteReminder(reminder.id)\<close>
  of \<^verbatim>\<open>deleteAppointment\<close> and \<^verbatim>\<open>deleteMedication\<close>.\<close>

primrec deleteRelatedReminders :: "env \<Rightarrow> reminder list \<Rightarrow> unit prog" where
  "deleteRelatedReminders e [] = succeed ()"
| "deleteRelatedReminders e (reminder # rest) =
     andThen (deleteReminder e (r_id reminder)) (\<lambda>_. deleteRelatedReminders e rest)"

text \<open>\<^verbatim>\<open>reminders\<close> in the body of the two cascading deletes is the value the function
  closed over, the mirror as it was when the call began.\<close>

definition deleteAppointment :: "env \<Rightarrow> string \<Rightarrow> unit prog" where
  "deleteAppointment e k s =
     andThen (remove e appointments_store k) (\<lambda>_.
     andThen (setAppointments (filter (\<lambda>a. a_id a \<noteq> k))) (\<lambda>_.
     let relatedReminders = filter (\<lambda>r. relatedId r = Some k) (reminders s)
     in deleteRelatedReminders e relatedReminders)) s"

subsection \<open>Medication operations\<close>

text \<open>\<^verbatim>\<open>Number(str)\<close>, as far as \<^verbatim>\<open>setHours\<close> uses it: \<^verbatim>\<open>setHours\<close> keeps the integral
  part of a finite argument, and NaN and the infinities all make the date invalid
  (\<open>None\<close>). A string of decimal digits whose value is at most \<open>2^53\<close> is read exactly.
  Every other string (the empty string, white space, a sign, a fraction, an exponent, a
  radix prefix, \<^verbatim>\<open>Infinity\<close>, a longer digit string, anything else) is converted by the
  host.\<close>

definition isDigit :: "char \<Rightarrow> bool" where
  "isDigit c = (CHR ''0'' \<le> c \<and> c \<le> CHR ''9'')"

definition decimalValue :: "string \<Rightarrow> int" where
  "decimalValue str = foldl (\<lambda>acc c. 10 * acc + (int (of_char c) - 48)) 0 str"

definition toNumber :: "env \<Rightarrow> string \<Rightarrow> int option" where
  "toNumber e str =
     (if str \<noteq> [] \<and> list_all isDigit str \<and> decimalValue str \<le> 9007199254740992
      then Some (decimalValue str)
      else hostNumber e str)"

text \<open>\<^verbatim>\<open>str.split(sep)\<close> for a separator of one character.\<close>

primrec splitOn :: "char \<Rightarrow> string \<Rightarrow> string list" where
  "splitOn sep [] = [ [] ]"
| "splitOn sep (c # cs) =
     (if c = sep then [] # splitOn sep cs
      else (case splitOn sep cs of [] \<Rightarrow> [ [c] ] | w # ws \<Rightarrow> (c # w) # ws))"

text \<open>\<^verbatim>\<open>const [hours, minutes] = time.split(':').map(Number)\<close>: a missing element is
  \<^verbatim>\<open>undefined\<close>, which \<^verbatim>\<open>setHours\<close> converts to NaN.\<close>

definition parseTime :: "env \<Rightarrow> string \<Rightarrow> int option \<times> int option" where
  "parseTime e time =
     (case map (toNumber e) (splitOn CHR '':'' time) of
        [] \<Rightarrow> (None, None)
      | [hours] \<Rightarrow> (hours, None)
      | hours # minutes # _ \<Rightarrow> (hours, minutes))"

primrec addMedicationReminders ::
  "env \<Rightarrow> medication_fields \<Rightarrow> medication \<Rightarrow> string list \<Rightarrow> unit prog" where
  "addMedicationReminders e medication newMedication [] = succeed ()"
| "addMedicationReminders e medication newMedication (time # rest) =
     (let (hours, minutes) = parseTime e time in
      andThen (now e) (\<lambda>t1.
      let scheduledTime0 = setHours e (Some t1) hours minutes 0 0 in
      andThen (now e) (\<lambda>t2.
      let scheduledTime1 =
            (if dateLess scheduledTime0 (Some t2) then addDays e scheduledTime0 1
             else scheduledTime0) in
      andThen (addReminder e
                \<lparr> rf_type = Medication,
                  rf_title = ''Take '' @ mf_name medication,
                  rf_description = Some (mf_dosage medication @ '' - '' @ mf_frequency medication),
                  rf_scheduledTime = scheduledTime1,
                  rf_snoozedUntil = None,
                  rf_relatedId = Some (m_id newMedication) \<rparr>) (\<lambda>_.
      addMedicationReminders e medication newMedication rest))))"

definition addMedication :: "env \<Rightarrow> medication_fields \<Rightarrow> medication prog" where
  "addMedication e medication =
     andThen (generateId e) (\<lambda>newId.
     andThen (now e) (\<lambda>created.
     let newMedication =
           \<lparr> m_id = newId, m_name = mf_name medication, m_dosage = mf_dosage medication,
             m_frequency = mf_frequency medication, m_times = mf_times medication,
             m_notes = mf_notes medication, m_createdAt = Some created \<rparr>
     in andThen (add e medications_store newMedication) (\<lambda>_.
        andThen (setMedications (\<lambda>prev. prev @ [newMedication])) (\<lambda>_.
        andThen (addMedicationReminders e medication newMedication (mf_times medication)) (\<lambda>_.
        succeed newMedication)))))"

definition updateMedication :: "env \<Rightarrow> medication \<Rightarrow> unit prog" where
  "updateMedication e medication =
     andThen (update e medications_store medication) (\<lambda>_.
     setMedications (map (\<lambda>m. if m_id m = m_id medication then medication else m)))"

definition deleteMedication :: "env \<Rightarrow> string \<Rightarrow> unit prog" where
  "deleteMedication e k s =
     andThen (remove e medications_store k) (\<lambda>_.
     andThen (setMedications (filter (\<lambda>m. m_id m \<noteq> k))) (\<lambda>_.
     let relatedReminders = filter (\<lambda>r. relatedId r = Some k) (reminders s)
     in deleteRelatedReminders e relatedReminders)) s"

subsection \<open>Loading and seeding\<close>

text \<open>\<^verbatim>\<open>Promise.all\<close> of the three \<^verbatim>\<open>getAll\<close> calls: all three requests are issued, and
  the result is the three lists or the error of a request that failed.\<close>

definition loadAll :: "env \<Rightarrow> (reminder list \<times> appointment list \<times> medication list) prog" where
  "loadAll e s =
     (let (r1, s1) = getAll e reminders_store s;
          (r2, s2) = getAll e appointments_store s1;
          (r3, s3) = getAll e medications_store s2
      in (case r1 of
            Inl err \<Rightarrow> Inl err
          | Inr loadedReminders \<Rightarrow>
              (case r2 of
                 Inl err \<Rightarrow> Inl err
               | Inr loadedAppointments \<Rightarrow>
                   (case r3 of
                      Inl err \<Rightarrow> Inl err
                    | Inr loadedMedications \<Rightarrow>
                        Inr (loadedReminders, loadedAppointments, loadedMedications))),
          s3))"

definition setLoaded :: "reminder list \<times> appointment list \<times> medication list \<Rightarrow> unit prog" where
  "setLoaded loaded =
     (case loaded of (loadedReminders, loadedAppointments, loadedMedications) \<Rightarrow>
        andThen (setReminders (\<lambda>_. loadedReminders)) (\<lambda>_.
        andThen (setAppointments (\<lambda>_. loadedAppointments)) (\<lambda>_.
        setMedications (\<lambda>_. loadedMedications))))"

text \<open>The effect run on mount. The error is caught (the hook records its message and
  the loading flag, which are view state outside this model).\<close>

definition loadData :: "env \<Rightarrow> unit prog" where
  "loadData e s =
     (case andThen (loadAll e) setLoaded s of
        (Inl err, s') \<Rightarrow> (Inr (), s')
      | (Inr u, s') \<Rightarrow> (Inr (), s'))"

definition seedDemoData :: "env \<Rightarrow> unit prog" where
  "seedDemoData e =
     andThen (now e) (\<lambda>now0.
     andThen (addMedication e
               \<lparr> mf_name = ''Lisinopril'', mf_dosage = ''10mg'', mf_frequency = ''Once daily'',
                 mf_times = [''08:00''],
                 mf_notes = Some ''Take with water in the morning'' \<rparr>) (\<lambda>_.
     andThen (addMedication e
               \<lparr> mf_name = ''Metformin'', mf_dosage = ''500mg'', mf_frequency = ''Twice daily'',
                 mf_times = [''08:00'', ''20:00''],
                 mf_notes = Some ''Take with meals'' \<rparr>) (\<lambda>_.
     let futureDate = setHours e (addDays e (copyDate (Some now0)) 3) (Some 10) (Some 30) 0 0 in
     andThen (generateId e) (\<lambda>item1.
     andThen (generateId e) (\<lambda>item2.
     andThen (generateId e) (\<lambda>item3.
     andThen (generateId e) (\<lambda>item4.
     andThen (addAppointment e
               \<lparr> af_title = ''Annual Physical'', af_doctor = Some ''Dr. Sarah Johnson'',
                 af_location = ''City Medical Center, Room 204'',
                 af_dateTime = futureDate,
                 af_notes = Some ''Fasting required - no food after midnight'',
                 af_checklist =
                   [\<lparr> c_id = item1, c_text = ''Insurance card'', completed = False \<rparr>,
                    \<lparr> c_id = item2, c_text = ''Photo ID'', completed = False \<rparr>,
                    \<lparr> c_id = item3, c_text = ''List of current medications'', completed = False \<rparr>,
                    \<lparr> c_id = item4, c_text = ''Previous test results'', completed = False \<rparr>] \<rparr>) (\<lambda>_.
     let yesterday = setHours e (addDays e (copyDate (Some now0)) (- 1)) (Some 8) (Some 0) 0 0 in
     andThen (generateId e) (\<lambda>past1.
     andThen (add e reminders_store
               \<lparr> r_id = past1, r_type = Medication, r_title = ''Take Lisinopril'',
                 r_description = Some ''10mg - Once daily'',
                 scheduledTime = yesterday, r_status = Taken, snoozedUntil = None,
                 snoozeCount = 0, relatedId = None, r_createdAt = yesterday \<rparr>) (\<lambda>_.
     let yesterdayEvening = setHours e yesterday (Some 20) (Some 0) 0 0 in
     andThen (generateId e) (\<lambda>past2.
     andThen (add e reminders_store
               \<lparr> r_id = past2, r_type = Medication, r_title = ''Take Metformin'',
                 r_description = Some ''500mg - Twice daily'',
                 scheduledTime = yesterdayEvening, r_status = Snoozed, snoozedUntil = None,
                 snoozeCount = 1, relatedId = None, r_createdAt = yesterdayEvening \<rparr>) (\<lambda>_.
     andThen (loadAll e) setLoaded))))))))))))"

subsection \<open>The operations the hook returns\<close>

datatype operation =
    AddReminder reminder_fields
  | UpdateReminder reminder
  | DeleteReminder string
  | AddAppointment appointment_fields
  | UpdateAppointment appointment
  | DeleteAppointment string
  | AddMedication medication_fields
  | UpdateMedication medication
  | DeleteMedication string
  | SeedDemoData

fun exec :: "env \<Rightarrow> operation \<Rightarrow> unit prog" where
  "exec e (AddReminder input) = andThen (addReminder e input) (\<lambda>_. succeed ())"
| "exec e (UpdateReminder reminder) = updateReminder e reminder"
| "exec e (DeleteReminder k) = deleteReminder e k"
| "exec e (AddAppointment input) = andThen (addAppointment e input) (\<lambda>_. succeed ())"
| "exec e (UpdateAppointment appointment) = updateAppointment e appointment"
| "exec e (DeleteAppointment k) = deleteAppointment e k"
| "exec e (AddMedication input) = andThen (addMedication e input) (\<lambda>_. succeed ())"
| "exec e (UpdateMedication medication) = updateMedication e medication"
| "exec e (DeleteMedication k) = deleteMedication e k"
| "exec e SeedDemoData = seedDemoData e"

text \<open>An object store lists its records in strictly increasing key order.\<close>

definition keyed :: "('a \<Rightarrow> string) \<Rightarrow> 'a list \<Rightarrow> bool" where
  "keyed key xs = sorted_wrt (<) (map key xs)"

definition wellFormedStores :: "sys \<Rightarrow> bool" where
  "wellFormedStores s =
     (keyed r_id (db_reminders s) \<and> keyed a_id (db_appointments s) \<and> keyed m_id (db_medications s))"

text \<open>The states of a session: the hook mounts with empty mirrors over some database,
  loads, and then runs the exposed operations one after another, whatever the clock, the
  random source and the store do.\<close>

inductive reachable :: "sys \<Rightarrow> bool" where
  mounted:
    "wellFormedStores s \<Longrightarrow> reminders s = [] \<Longrightarrow> appointments s = [] \<Longrightarrow> medications s = []
       \<Longrightarrow> reachable (snd (loadData e s))"
| step: "reachable s \<Longrightarrow> reachable (snd (exec e operation s))"

subsection \<open>The appointment page (components/Appointments.tsx)\<close>

definition markAppointmentComplete :: "(appointment \<Rightarrow> unit prog) \<Rightarrow> appointment \<Rightarrow> unit prog" where
  "markAppointmentComplete onUpdateAppointment appointment =
     onUpdateAppointment (appointment\<lparr>a_status := Completed\<rparr>)"

definition markAppointmentMissed :: "(appointment \<Rightarrow> unit prog) \<Rightarrow> appointment \<Rightarrow> unit prog" where
  "markAppointmentMissed onUpdateAppointment appointment =
     onUpdateAppointment (appointment\<lparr>a_status := AppointmentMissed\<rparr>)"

subsection \<open>The notification modal\<close>

text \<open>The modal's own state: the selected action, the confirmation flag, and the delay
  of the close timer once it is set. \<^verbatim>\<open>onAction\<close> is a property the parent passes in;
  what it does to the parent's world \<open>'w\<close> is the parent's business.\<close>

record modalState =
  selectedAction :: "reminderAction option"
  isConfirmed :: bool
  closeTimer :: "nat option"

definition handleAction ::
  "(reminderAction \<Rightarrow> reminder \<Rightarrow> 'w \<Rightarrow> 'w) \<Rightarrow> reminder \<Rightarrow> reminderAction
     \<Rightarrow> modalState \<times> 'w \<Rightarrow> modalState \<times> 'w" where
  "handleAction onAction reminder action mw =
     (case mw of (m, w) \<Rightarrow>
        (m\<lparr>selectedAction := Some action, isConfirmed := True, closeTimer := Some 2000\<rparr>,
         onAction action reminder w))"

text \<open>The pictographs of the messages, as UTF-8 bytes: white heavy check mark, alarm
  clock, and the skip-track button with its variation selector.\<close>

definition checkMark :: string where
  "checkMark = map char_of [0xE2, 0x9C, 0x85 :: nat]"

definition alarmClock :: string where
  "alarmClock = map char_of [0xE2, 0x8F, 0xB0 :: nat]"

definition skipTrack :: string where
  "skipTrack = map char_of [0xE2, 0x8F, 0xAD, 0xEF, 0xB8, 0x8F :: nat]"

text \<open>\<^verbatim>\<open>formatTime\<close> wraps \<^verbatim>\<open>Intl.DateTimeFormat\<close>, whose output depends on the host's locale
  data; it is a parameter. \<open>t\<close> is the clock reading when the message is rendered.\<close>

definition getConfirmationMessage ::
  "(int \<Rightarrow> string) \<Rightarrow> int \<Rightarrow> reminder \<Rightarrow> modalState \<Rightarrow> string" where
  "getConfirmationMessage formatTime t reminder m =
     (case selectedAction m of
        Some Take \<Rightarrow>
          (if r_type reminder = Medication
           then checkMark @ '' Medication marked as taken!''
           else checkMark @ '' Appointment confirmed!'')
      | Some Snooze \<Rightarrow>
          alarmClock @ '' Snoozed! I'' @ [CHR 0x27] @ ''ll remind you again at ''
            @ formatTime (addMinutes t 15)
      | Some Skip \<Rightarrow> skipTrack @ '' Reminder skipped for now.''
      | None \<Rightarrow> [])"

subsection \<open>Predicates used in the statements\<close>

text \<open>A mirror is consistent with its object store when the store is in key order,
  every record of the mirror is in the store, and no two records of the mirror share a key.\<close>

definition mirrored :: "('a \<Rightarrow> string) \<Rightarrow> 'a list \<Rightarrow> 'a list \<Rightarrow> bool" where
  "mirrored key mirror store =
     (keyed key store \<and> set mirror \<subseteq> set store \<and> distinct (map key mirror))"

definition consistent :: "sys \<Rightarrow> bool" where
  "consistent s =
     (mirrored r_id (reminders s) (db_reminders s)
      \<and> mirrored a_id (appointments s) (db_appointments s)
      \<and> mirrored m_id (medications s) (db_medications s))"

text \<open>A predicate on states that holds after a call whenever it held before, whether
  the call returns or throws.\<close>

definition preserves :: "(sys \<Rightarrow> bool) \<Rightarrow> 'a prog \<Rightarrow> bool" where
  "preserves I m = (\<forall>s. I s \<longrightarrow> I (snd (m s)))"



text \<open>Every reminder with status missed, in the mirror or in the store, lies in
  \<open>M\<close>.\<close>

definition missedWithin :: "reminder set \<Rightarrow> sys \<Rightarrow> bool" where
  "missedWithin M s =
     (\<forall>r \<in> set (reminders s) \<union> set (db_reminders s). r_status r = Missed \<longrightarrow> r \<in> M)"

text \<open>The host's offsets are at most a day in magnitude.\<close>

definition zoneBound :: "env \<Rightarrow> bool" where
  "zoneBound e = (\<forall>t b. \<bar>localTZA e t b\<bar> \<le> msPerDay)"


definition readsBack :: "env \<Rightarrow> int \<Rightarrow> bool" where
  "readsBack e w = (localTime e (utc e w) = w)"


text \<open>The scheduled time the loop of \<^verbatim>\<open>addMedication\<close> computes for one entry of
  \<^verbatim>\<open>times\<close>, from its two readings of the clock.\<close>

definition entrySchedule :: "env \<Rightarrow> string \<Rightarrow> int \<Rightarrow> int \<Rightarrow> date" where
  "entrySchedule e time t1 t2 =
     (let (hours, minutes) = parseTime e time;
          scheduledTime0 = setHours e (Some t1) hours minutes 0 0
      in if dateLess scheduledTime0 (Some t2) then addDays e scheduledTime0 1 else scheduledTime0)"

text \<open>A time of day as a time input writes it: two digits, a colon, two digits.\<close>

definition twoDigits :: "nat \<Rightarrow> string" where
  "twoDigits n = [digitChar (n div 10), digitChar (n mod 10)]"

definition timeString :: "nat \<Rightarrow> nat \<Rightarrow> string" where
  "timeString h m = twoDigits h @ '':'' @ twoDigits m"

subsection \<open>Sample data\<close>

text \<open>Three hosts. With \<^verbatim>\<open>TZ=UTC\<close> local time is UTC.

  America/New_York between its transitions of 5 November 2023 and 3 November 2024: five
  hours behind UTC until 10 March 2024 07:00 UTC, four hours behind from then on. The
  wall-clock times from 02:00 to 03:00 of that day are skipped.

  America/Sao_Paulo between its transitions of 15 October 2017 and 4 November 2018: two
  hours behind UTC until 18 February 2018 02:00 UTC, three hours behind from then on. The
  wall-clock times from 23:00 to 24:00 of Saturday 17 February occur twice.

  A wall-clock time that is skipped or occurs twice is resolved with the offset in force
  before the transition.\<close>

definition utcZone :: "int \<Rightarrow> bool \<Rightarrow> int" where
  "utcZone t isUTC = 0"

definition newYorkZone :: "int \<Rightarrow> bool \<Rightarrow> int" where
  "newYorkZone t isUTC =
     (if isUTC then (if t < 1710054000000 then - 18000000 else - 14400000)
      else (if t < 1710039600000 then - 18000000 else - 14400000))"


text \<open>The examples use time strings of two digit pairs only, which the host's number
  conversion is not asked about.\<close>

definition sampleEnv :: env where
  "sampleEnv = \<lparr> localTZA = utcZone, hostNumber = (\<lambda>_. None), clock = (\<lambda>n. 3600000 + int n),
                 random = (\<lambda>n. if even n then ''0.k3j9x2m1q8z'' else ''0.7fh2kd9s1xw''),
                 storage_ok = (\<lambda>_. True) \<rparr>"

definition emptySys :: sys where
  "emptySys = \<lparr> reminders = [], appointments = [], medications = [],
                db_reminders = [], db_appointments = [], db_medications = [],
                clock_reads = 0, random_draws = 0, store_requests = 0 \<rparr>"


definition sampleAppointment :: appointment_fields where
  "sampleAppointment =
     \<lparr> af_title = ''Check-up'', af_doctor = Some ''Dr. Lee'', af_location = ''Clinic'',
       af_dateTime = Some 90000000, af_notes = None, af_checklist = [] \<rparr>"

definition bookedVisit :: appointment where
  "bookedVisit =
     \<lparr> a_id = ''3600000-k3j9x2m1q'', a_title = ''Check-up'', a_doctor = Some ''Dr. Lee'',
       a_location = ''Clinic'', dateTime = Some 90000000, a_notes = None, checklist = [],
       a_status = Upcoming, a_createdAt = Some 3600001 \<rparr>"




definition stuckEnv :: env where
  "stuckEnv = sampleEnv\<lparr>clock := (\<lambda>_. 3600000), random := (\<lambda>_. ''0.k3j9x2m1q8z'')\<rparr>"

text \<open>A call that begins at 07:59:59.990 UTC, with a clock that is 5 ms further at each
  reading.\<close>

definition raceEnv :: env where
  "raceEnv = sampleEnv\<lparr>clock := (\<lambda>n. 28799990 + 5 * int n)\<rparr>"

definition morningPills :: medication_fields where
  "morningPills =
     \<lparr> mf_name = ''Ramipril'', mf_dosage = ''5mg'', mf_frequency = ''Twice daily'',
       mf_times = [''09:00'', ''08:00''], mf_notes = None \<rparr>"

definition ramipril :: medication where
  "ramipril =
     \<lparr> m_id = ''28799990-k3j9x2m1q'', m_name = ''Ramipril'', m_dosage = ''5mg'',
       m_frequency = ''Twice daily'', m_times = [''09:00'', ''08:00''], m_notes = None,
       m_createdAt = Some 28799995 \<rparr>"

text \<open>New York on Saturday 9 March 2024 at 10:00 (15:00 UTC), the day before the clocks
  go forward, and on Wednesday 13 March 2024 at 12:00 (16:00 UTC).\<close>

definition newYork :: env where
  "newYork = sampleEnv\<lparr>localTZA := newYorkZone, clock := (\<lambda>n. 1709996400000 + int n)\<rparr>"


definition eveningPills :: medication_fields where
  "eveningPills =
     \<lparr> mf_name = ''Aspirin'', mf_dosage = ''75mg'', mf_frequency = ''Twice daily'',
       mf_times = [''08:00'', ''20:00''], mf_notes = None \<rparr>"

definition aspirin :: medication where
  "aspirin =
     \<lparr> m_id = ''1709996400000-k3j9x2m1q'', m_name = ''Aspirin'', m_dosage = ''75mg'',
       m_frequency = ''Twice daily'', m_times = [''08:00'', ''20:00''], m_notes = None,
       m_createdAt = Some 1709996400001 \<rparr>"


text \<open>An appointment at the first instant a \<^verbatim>\<open>Date\<close> can hold.\<close>

definition earliestAppointment :: appointment_fields where
  "earliestAppointment =
     \<lparr> af_title = ''Check-up'', af_doctor = None, af_location = ''Clinic'',
       af_dateTime = Some (- 8640000000000000), af_notes = None, af_checklist = [] \<rparr>"

definition earliestVisit :: appointment where
  "earliestVisit =
     \<lparr> a_id = ''3600000-k3j9x2m1q'', a_title = ''Check-up'', a_doctor = None,
       a_location = ''Clinic'', dateTime = Some (- 8640000000000000), a_notes = None,
       checklist = [], a_status = Upcoming, a_createdAt = Some 3600001 \<rparr>"

definition pill :: medication where
  "pill = \<lparr> m_id = ''m1'', m_name = ''Aspirin'', m_dosage = ''75mg'', m_frequency = ''Once daily'',
           m_times = [''08:00''], m_notes = None, m_createdAt = Some 0 \<rparr>"

definition visit :: appointment where
  "visit = \<lparr> a_id = ''a1'', a_title = ''Check-up'', a_doctor = None, a_location = ''Clinic'',
            dateTime = Some 90000000, a_notes = None, checklist = [], a_status = Upcoming,
            a_createdAt = Some 0 \<rparr>"

definition pillReminder :: reminder where
  "pillReminder =
     \<lparr> r_id = ''r1'', r_type = Medication, r_title = ''Take Aspirin'', r_description = None,
       scheduledTime = Some 28800000, r_status = Pending, snoozedUntil = None, snoozeCount = 0,
       relatedId = Some ''m1'', r_createdAt = Some 0 \<rparr>"

definition visitReminder :: reminder where
  "visitReminder =
     \<lparr> r_id = ''r2'', r_type = Appointment, r_title = ''Appointment: Check-up'',
       r_description = Some ''Clinic'', scheduledTime = Some 86400000, r_status = Pending,
       snoozedUntil = None, snoozeCount = 0, relatedId = Some ''a1'', r_createdAt = Some 0 \<rparr>"

definition looseReminder :: reminder where
  "looseReminder =
     \<lparr> r_id = ''r3'', r_type = Medication, r_title = ''Drink water'', r_description = None,
       scheduledTime = Some 36000000, r_status = Pending, snoozedUntil = None, snoozeCount = 0,
       relatedId = None, r_createdAt = Some 0 \<rparr>"

definition carePlan :: sys where
  "carePlan =
     \<lparr> reminders = [pillReminder, visitReminder, looseReminder], appointments = [visit],
       medications = [pill],
       db_reminders = [pillReminder, visitReminder, looseReminder], db_appointments = [visit],
       db_medications = [pill], clock_reads = 0, random_draws = 0, store_requests = 0 \<rparr>"

definition vitamin :: medication where
  "vitamin = \<lparr> m_id = ''m2'', m_name = ''Vitamin D'', m_dosage = ''1000 IU'',
              m_frequency = ''Once daily'', m_times = [''09:00''], m_notes = None,
              m_createdAt = Some 0 \<rparr>"

definition dentist :: appointment where
  "dentist = \<lparr> a_id = ''a2'', a_title = ''Dentist'', a_doctor = None, a_location = ''Surgery'',
              dateTime = Some 180000000, a_notes = None, checklist = [], a_status = Upcoming,
              a_createdAt = Some 0 \<rparr>"

text \<open>A database with records, before the hook has loaded it.\<close>

definition clinicDb :: sys where
  "clinicDb =
     \<lparr> reminders = [], appointments = [], medications = [],
       db_reminders = [pillReminder, visitReminder, looseReminder],
       db_appointments = [visit, dentist], db_medications = [pill, vitamin],
       clock_reads = 0, random_draws = 0, store_requests = 0 \<rparr>"




definition closedModal :: modalState where
  "closedModal = \<lparr> selectedAction = None, isConfirmed = False, closeTimer = None \<rparr>"

section \<open>Calendar arithmetic\<close>

text \<open>Within the range of dates that leaves a few days to the limits of \<^verbatim>\<open>Date\<close>, and
  for a time of day, the arithmetic of \<^verbatim>\<open>setHours\<close> and \<^verbatim>\<open>setDate\<close> is exact and no
  date becomes invalid.\<close>

lemma toDouble_exact: "\<bar>x\<bar> \<le> 9007199254740992 \<Longrightarrow> toDouble x = Some x"
  by (simp add: toDouble_def Let_def)

lemma makeTime_timeOfDay:
  assumes "0 \<le> h" "h < 24" "0 \<le> m" "m < 60" "0 \<le> sec" "sec < 60" "0 \<le> ms" "ms < 1000"
  shows "makeTime (Some h) (Some m) sec ms = Some (h * 3600000 + m * 60000 + sec * 1000 + ms)"
  using assms by (simp add: makeTime_def toDouble_exact)

lemma makeDate_exact:
  assumes "\<bar>day * msPerDay\<bar> \<le> 9000000000000000" "\<bar>day * msPerDay + time\<bar> \<le> 9000000000000000"
  shows "makeDate day time = Some (day * msPerDay + time)"
  using assms by (simp add: makeDate_def toDouble_exact)

lemma utc_bound: "zoneBound e \<Longrightarrow> \<bar>utc e w - w\<bar> \<le> msPerDay"
  by (simp add: zoneBound_def utc_def)

lemma localTime_bound: "zoneBound e \<Longrightarrow> \<bar>localTime e t - t\<bar> \<le> msPerDay"
  by (simp add: zoneBound_def localTime_def)

lemma day_start_bound: "\<bar>x div msPerDay * msPerDay - x\<bar> \<le> msPerDay"
proof -
  have "x div msPerDay * msPerDay = x - x mod msPerDay"
    by (simp add: minus_mod_eq_div_mult)
  moreover have "0 \<le> x mod msPerDay" "x mod msPerDay < msPerDay"
    by (simp_all add: msPerDay_def)
  ultimately show ?thesis by linarith
qed

lemma setHours_exact:
  assumes z: "zoneBound e" and t: "\<bar>t\<bar> \<le> 8500000000000000"
    and tod: "0 \<le> h" "h < 24" "0 \<le> m" "m < 60" "0 \<le> sec" "sec < 60" "0 \<le> ms" "ms < 1000"
  shows "setHours e (Some t) (Some h) (Some m) sec ms =
           Some (utc e (localTime e t div msPerDay * msPerDay + (h * 3600000 + m * 60000 + sec * 1000 + ms)))"
    and "\<bar>utc e (localTime e t div msPerDay * msPerDay + (h * 3600000 + m * 60000 + sec * 1000 + ms)) - t\<bar>
           \<le> 4 * msPerDay"
proof -
  define x where "x = h * 3600000 + m * 60000 + sec * 1000 + ms"
  define d where "d = localTime e t div msPerDay * msPerDay"
  have x: "0 \<le> x" "x < msPerDay" using tod by (simp_all add: x_def msPerDay_def)
  have d: "\<bar>d - localTime e t\<bar> \<le> msPerDay" unfolding d_def by (rule day_start_bound)
  have l: "\<bar>localTime e t - t\<bar> \<le> msPerDay" using z by (rule localTime_bound)
  have u: "\<bar>utc e (d + x) - (d + x)\<bar> \<le> msPerDay" using z by (rule utc_bound)
  have D: "msPerDay = 86400000" by (simp add: msPerDay_def)
  have b: "\<bar>utc e (d + x) - t\<bar> \<le> 4 * msPerDay" using x d l u by linarith
  have m1: "\<bar>d\<bar> \<le> 9000000000000000" using d l t D by linarith
  have m2: "\<bar>d + x\<bar> \<le> 9000000000000000" using x d l t D by linarith
  have md: "makeDate (localTime e t div msPerDay) x = Some (d + x)"
    using makeDate_exact [of "localTime e t div msPerDay" x] m1 m2 by (simp add: d_def)
  have c: "timeClip (utc e (d + x)) = Some (utc e (d + x))"
    using b t D by (simp add: timeClip_def maxTime_def)
  show "setHours e (Some t) (Some h) (Some m) sec ms =
           Some (utc e (localTime e t div msPerDay * msPerDay + (h * 3600000 + m * 60000 + sec * 1000 + ms)))"
    using makeTime_timeOfDay [OF tod] md c by (simp add: setHours_def x_def d_def)
  show "\<bar>utc e (localTime e t div msPerDay * msPerDay + (h * 3600000 + m * 60000 + sec * 1000 + ms)) - t\<bar>
           \<le> 4 * msPerDay"
    using b by (simp add: x_def d_def)
qed

lemma addDays_exact:
  assumes z: "zoneBound e" and t: "\<bar>t\<bar> \<le> 8500000000000000" and k: "\<bar>k\<bar> \<le> 7"
  shows "addDays e (Some t) k = Some (utc e (localTime e t + k * msPerDay))"
    and "\<bar>utc e (localTime e t + k * msPerDay) - t\<bar> \<le> 9 * msPerDay"
proof -
  define tl where "tl = localTime e t"
  have D: "msPerDay = 86400000" by (simp add: msPerDay_def)
  have l: "\<bar>tl - t\<bar> \<le> msPerDay" unfolding tl_def using z by (rule localTime_bound)
  have d: "\<bar>tl div msPerDay * msPerDay - tl\<bar> \<le> msPerDay" by (rule day_start_bound)
  have u: "\<bar>utc e (tl + k * msPerDay) - (tl + k * msPerDay)\<bar> \<le> msPerDay" using z by (rule utc_bound)
  have e: "(tl div msPerDay + k) * msPerDay + tl mod msPerDay = tl + k * msPerDay"
    using div_mult_mod_eq [of tl msPerDay] by (simp add: algebra_simps)
  have kb: "\<bar>k * msPerDay\<bar> \<le> 7 * msPerDay" using k by (simp add: D)
  have b: "\<bar>utc e (tl + k * msPerDay) - t\<bar> \<le> 9 * msPerDay" using l u kb by linarith
  have m1: "\<bar>(tl div msPerDay + k) * msPerDay\<bar> \<le> 9000000000000000"
    using d l kb t by (simp add: distrib_right D)
  have m2: "\<bar>(tl div msPerDay + k) * msPerDay + tl mod msPerDay\<bar> \<le> 9000000000000000"
    unfolding e using l kb t by (simp add: D)
  have md: "makeDate (tl div msPerDay + k) (tl mod msPerDay) = Some (tl + k * msPerDay)"
    using makeDate_exact [OF m1 m2] e by simp
  have c: "timeClip (utc e (tl + k * msPerDay)) = Some (utc e (tl + k * msPerDay))"
    using b t D by (simp add: timeClip_def maxTime_def)
  show "addDays e (Some t) k = Some (utc e (localTime e t + k * msPerDay))"
    using md c by (simp add: addDays_def tl_def)
  show "\<bar>utc e (localTime e t + k * msPerDay) - t\<bar> \<le> 9 * msPerDay"
    using b by (simp add: tl_def)
qed









section \<open>Weekly statistics\<close>





lemma getWeeklyStats_fields:
  "fst (getWeeklyStats e s) =
     \<lparr> weekStartDate = fst (getWeekBounds e (Some (clock e (clock_reads s)))),
       weekEndDate = snd (getWeekBounds e (Some (clock e (clock_reads s)))),
       medicationsTaken =
         length (filter (\<lambda>r. r_type r = Medication \<and> r_status r = Taken) (weekReminders e s)),
       medicationsMissed =
         length (filter (\<lambda>r. r_type r = Medication \<and> (r_status r = Missed \<or> r_status r = Skipped))
                   (weekReminders e s)),
       medicationsSnoozed =
         length (filter (\<lambda>r. r_type r = Medication \<and> (r_status r = Snoozed \<or> snoozeCount r > 0))
                   (weekReminders e s)),
       appointmentsAttended =
         length (filter (\<lambda>r. r_type r = Appointment \<and> r_status r = Taken) (weekReminders e s)),
       appointmentsMissed =
         length (filter (\<lambda>r. r_type r = Appointment \<and> (r_status r = Missed \<or> r_status r = Skipped))
                   (weekReminders e s)),
       totalReminders = length (weekReminders e s) \<rparr>"
  by (simp add: getWeeklyStats_def weekReminders_def Let_def split_beta)



lemma length_filter_disjoint:
  "(\<And>x. \<not> (P x \<and> Q x)) \<Longrightarrow> length (filter P xs) + length (filter Q xs) \<le> length xs"
  by (induction xs) auto

lemma length_filter_type:
  "length (filter (\<lambda>r. r_type r = Medication) xs) + length (filter (\<lambda>r. r_type r = Appointment) xs)
     = length xs"
proof (induction xs)
  case Nil
  show ?case by simp
next
  case (Cons r xs)
  then show ?case by (cases "r_type r") simp_all
qed

text \<open>
  Claim C10. The type of a reminder splits the reminders of the week in two, so
  \<open>totalReminders\<close> is the number of medication reminders plus the number of appointment
  reminders of the week; taken plus missed never exceeds the number of the type.
\<close>

theorem weeklyStats_partition:
  "totalReminders (fst (getWeeklyStats e s)) =
       length (filter (\<lambda>r. r_type r = Medication) (weekReminders e s))
     + length (filter (\<lambda>r. r_type r = Appointment) (weekReminders e s))
   \<and> medicationsTaken (fst (getWeeklyStats e s)) + medicationsMissed (fst (getWeeklyStats e s))
       \<le> length (filter (\<lambda>r. r_type r = Medication) (weekReminders e s))
   \<and> appointmentsAttended (fst (getWeeklyStats e s)) + appointmentsMissed (fst (getWeeklyStats e s))
       \<le> length (filter (\<lambda>r. r_type r = Appointment) (weekReminders e s))"
proof -
  let ?w = "weekReminders e s"
  have m: "length (filter (\<lambda>r. r_status r = Taken) (filter (\<lambda>r. r_type r = Medication) ?w))
         + length (filter (\<lambda>r. r_status r = Missed \<or> r_status r = Skipped) (filter (\<lambda>r. r_type r = Medication) ?w))
         \<le> length (filter (\<lambda>r. r_type r = Medication) ?w)"
    by (rule length_filter_disjoint) auto
  have a: "length (filter (\<lambda>r. r_status r = Taken) (filter (\<lambda>r. r_type r = Appointment) ?w))
         + length (filter (\<lambda>r. r_status r = Missed \<or> r_status r = Skipped) (filter (\<lambda>r. r_type r = Appointment) ?w))
         \<le> length (filter (\<lambda>r. r_type r = Appointment) ?w)"
    by (rule length_filter_disjoint) auto
  show ?thesis
    using m a by (simp add: getWeeklyStats_fields length_filter_type)
qed




section \<open>Sequencing\<close>

lemma andThen_Inl: "m s = (Inl err, s') \<Longrightarrow> andThen m f s = (Inl err, s')"
  by (simp add: andThen_def)

lemma andThen_Inr: "m s = (Inr x, s') \<Longrightarrow> andThen m f s = f x s'"
  by (simp add: andThen_def)

lemma andThen_cases:
  obtains (throws) err s' where "m s = (Inl err, s')" "andThen m f s = (Inl err, s')"
        | (returns) x s' where "m s = (Inr x, s')" "andThen m f s = f x s'"
proof (cases "m s")
  case (Pair r s')
  show ?thesis
  proof (cases r)
    case (Inl err)
    with Pair show ?thesis by (intro throws [of err s']) (simp_all add: andThen_def)
  next
    case (Inr x)
    with Pair show ?thesis by (intro returns [of x s']) (simp_all add: andThen_def)
  qed
qed

lemma preservesI: "(\<And>s. I s \<Longrightarrow> I (snd (m s))) \<Longrightarrow> preserves I m"
  by (simp add: preserves_def)

lemma preservesD: "preserves I m \<Longrightarrow> I s \<Longrightarrow> I (snd (m s))"
  by (simp add: preserves_def)

lemma preserves_succeed: "preserves I (succeed x)"
  by (simp add: preserves_def succeed_def)

lemma preserves_andThen:
  assumes "preserves I m" and "\<And>x. preserves I (f x)"
  shows "preserves I (andThen m f)"
proof (rule preservesI)
  fix s assume i: "I s"
  show "I (snd (andThen m f s))"
  proof (cases m f s rule: andThen_cases)
    case (throws err s')
    then show ?thesis using preservesD [OF assms(1) i] by simp
  next
    case (returns x s')
    then show ?thesis using preservesD [OF assms(1) i] preservesD [OF assms(2), of s' x] by simp
  qed
qed

lemma andThen_assoc: "andThen (andThen m f) g = andThen m (\<lambda>x. andThen (f x) g)"
  by (rule ext) (simp add: andThen_def split: prod.splits sum.splits)

lemma preserves_andThen_pair:
  assumes "preserves I (andThen m f)" and "\<And>y. preserves I (g y)"
  shows "preserves I (andThen m (\<lambda>x. andThen (f x) g))"
  unfolding andThen_assoc [symmetric] using assms by (rule preserves_andThen)

section \<open>Records in key order\<close>

lemma set_put_record: "set (put_record key x xs) \<subseteq> insert x (set xs)"
  by (induction xs) auto

lemma put_record_mem: "x \<in> set (put_record key x xs)"
  by (induction xs) auto

lemma put_record_keeps: "y \<in> set xs \<Longrightarrow> key y \<noteq> key x \<Longrightarrow> y \<in> set (put_record key x xs)"
  by (induction xs) auto

lemma set_put_record_fresh:
  "\<not> has_key key (key x) xs \<Longrightarrow> set (put_record key x xs) = insert x (set xs)"
  by (induction xs) (auto simp: has_key_def)

lemma keys_put_record: "set (map key (put_record key x xs)) \<subseteq> insert (key x) (set (map key xs))"
  using set_put_record [of key x xs] by auto

lemma keyed_put_record: "keyed key xs \<Longrightarrow> keyed key (put_record key x xs)"
proof (induction xs)
  case Nil
  show ?case by (simp add: keyed_def)
next
  case (Cons y ys)
  have tl: "keyed key ys" using Cons.prems by (simp add: keyed_def)
  have above: "\<forall>z \<in> set ys. key y < key z" using Cons.prems by (simp add: keyed_def)
  show ?case
  proof (cases "key x < key y")
    case True
    then show ?thesis using Cons.prems above by (auto simp: keyed_def)
  next
    case False
    show ?thesis
    proof (cases "key x = key y")
      case True
      then show ?thesis using Cons.prems by (simp add: keyed_def)
    next
      case ne: False
      with False have lt: "key y < key x" by simp
      have "\<forall>z \<in> set (put_record key x ys). key y < key z"
        using set_put_record [of key x ys] above lt by auto
      then show ?thesis using False ne Cons.IH [OF tl] by (simp add: keyed_def)
    qed
  qed
qed

lemma keyed_delete_record: "keyed key xs \<Longrightarrow> keyed key (delete_record key k xs)"
  unfolding keyed_def delete_record_def
  by (induction xs) auto

lemma keyed_distinct: "keyed key xs \<Longrightarrow> distinct (map key xs)"
  unfolding keyed_def using strict_sorted_iff by blast

lemma mirrored_add:
  assumes "mirrored key mirror store" and "\<not> has_key key (key x) store"
  shows "mirrored key (mirror @ [x]) (put_record key x store)"
proof -
  have fresh: "key x \<notin> key ` set store" using assms(2) by (simp add: has_key_def)
  have "set mirror \<subseteq> set (put_record key x store)"
  proof
    fix y assume y: "y \<in> set mirror"
    then have "y \<in> set store" using assms(1) by (auto simp: mirrored_def)
    moreover from this have "key y \<noteq> key x" using fresh by (metis imageI)
    ultimately show "y \<in> set (put_record key x store)" by (rule put_record_keeps)
  qed
  moreover have "key x \<notin> key ` set mirror" using fresh assms(1) by (auto simp: mirrored_def)
  ultimately show ?thesis
    using assms(1) by (simp add: mirrored_def keyed_put_record put_record_mem)
qed

lemma mirrored_store_add:
  assumes "mirrored key mirror store" and "\<not> has_key key (key x) store"
  shows "mirrored key mirror (put_record key x store)"
  using mirrored_add [OF assms] by (simp add: mirrored_def)

lemma mirrored_update:
  assumes "mirrored key mirror store"
  shows "mirrored key (map (\<lambda>y. if key y = key x then x else y) mirror) (put_record key x store)"
proof -
  have "set (map (\<lambda>y. if key y = key x then x else y) mirror) \<subseteq> set (put_record key x store)"
    using assms by (auto simp: mirrored_def put_record_mem intro: put_record_keeps)
  moreover have "map key (map (\<lambda>y. if key y = key x then x else y) mirror) = map key mirror"
    by (induction mirror) auto
  then have "distinct (map key (map (\<lambda>y. if key y = key x then x else y) mirror))"
    using assms by (simp only: mirrored_def)
  ultimately show ?thesis using assms by (simp only: mirrored_def keyed_put_record simp_thms)
qed

lemma mirrored_delete:
  assumes "mirrored key mirror store"
  shows "mirrored key (filter (\<lambda>y. key y \<noteq> k) mirror) (delete_record key k store)"
proof -
  have "keyed key (delete_record key k store)"
    using assms by (simp add: mirrored_def keyed_delete_record)
  moreover have "set (filter (\<lambda>y. key y \<noteq> k) mirror) \<subseteq> set (delete_record key k store)"
    using assms by (auto simp: mirrored_def delete_record_def)
  moreover have "distinct (map key (filter (\<lambda>y. key y \<noteq> k) mirror))"
    using assms by (simp add: mirrored_def distinct_map_filter)
  ultimately show ?thesis by (simp only: mirrored_def simp_thms)
qed

lemma mirrored_load: "keyed key store \<Longrightarrow> mirrored key store store"
  by (simp add: mirrored_def keyed_distinct)

section \<open>What the basic operations compute\<close>

lemma generateId_run:
  "generateId e s =
     (Inr (numberToString (clock e (clock_reads s)) @ ''-''
             @ take 9 (drop 2 (random e (random_draws s)))),
      s\<lparr>clock_reads := Suc (clock_reads s), random_draws := Suc (random_draws s)\<rparr>)"
  by (simp add: generateId_def andThen_def now_def randomSuffix_def succeed_def)

lemma add_run:
  "add e st item s =
     (if \<not> storage_ok e (store_requests s)
      then (Inl StorageUnavailable, s\<lparr>store_requests := Suc (store_requests s)\<rparr>)
      else if has_key (keyPath st) (keyPath st item)
                (contents st (s\<lparr>store_requests := Suc (store_requests s)\<rparr>))
      then (Inl DuplicateKey, s\<lparr>store_requests := Suc (store_requests s)\<rparr>)
      else (Inr item,
            modify st (put_record (keyPath st) item) (s\<lparr>store_requests := Suc (store_requests s)\<rparr>)))"
  by (simp add: add_def andThen_def openDatabase_def)

lemma update_run:
  "update e st item s =
     (if \<not> storage_ok e (store_requests s)
      then (Inl StorageUnavailable, s\<lparr>store_requests := Suc (store_requests s)\<rparr>)
      else (Inr item,
            modify st (put_record (keyPath st) item) (s\<lparr>store_requests := Suc (store_requests s)\<rparr>)))"
  by (simp add: update_def andThen_def openDatabase_def)

lemma remove_run:
  "remove e st k s =
     (if \<not> storage_ok e (store_requests s)
      then (Inl StorageUnavailable, s\<lparr>store_requests := Suc (store_requests s)\<rparr>)
      else (Inr (),
            modify st (delete_record (keyPath st) k) (s\<lparr>store_requests := Suc (store_requests s)\<rparr>)))"
  by (simp add: remove_def andThen_def openDatabase_def)

lemma addReminder_run:
  "addReminder e f s =
     (let r = \<lparr> r_id = numberToString (clock e (clock_reads s)) @ ''-''
                         @ take 9 (drop 2 (random e (random_draws s))),
                r_type = rf_type f, r_title = rf_title f, r_description = rf_description f,
                scheduledTime = rf_scheduledTime f, r_status = Pending,
                snoozedUntil = rf_snoozedUntil f, snoozeCount = 0,
                relatedId = rf_relatedId f, r_createdAt = Some (clock e (Suc (clock_reads s))) \<rparr>;
          s1 = s\<lparr>clock_reads := Suc (Suc (clock_reads s)), random_draws := Suc (random_draws s),
                 store_requests := Suc (store_requests s)\<rparr>
      in if \<not> storage_ok e (store_requests s) then (Inl StorageUnavailable, s1)
         else if has_key r_id (r_id r) (db_reminders s) then (Inl DuplicateKey, s1)
         else (Inr r, s1\<lparr>reminders := reminders s @ [r],
                         db_reminders := put_record r_id r (db_reminders s)\<rparr>))"
  by (simp add: addReminder_def generateId_run andThen_def now_def add_run reminders_store_def
      setReminders_def succeed_def Let_def)

lemma updateReminder_run:
  "updateReminder e r s =
     (if \<not> storage_ok e (store_requests s)
      then (Inl StorageUnavailable, s\<lparr>store_requests := Suc (store_requests s)\<rparr>)
      else (Inr (), s\<lparr>store_requests := Suc (store_requests s),
                      reminders := map (\<lambda>x. if r_id x = r_id r then r else x) (reminders s),
                      db_reminders := put_record r_id r (db_reminders s)\<rparr>))"
  by (simp add: updateReminder_def andThen_def update_run reminders_store_def setReminders_def)

lemma deleteReminder_run:
  "deleteReminder e k s =
     (if \<not> storage_ok e (store_requests s)
      then (Inl StorageUnavailable, s\<lparr>store_requests := Suc (store_requests s)\<rparr>)
      else (Inr (), s\<lparr>store_requests := Suc (store_requests s),
                      reminders := filter (\<lambda>x. r_id x \<noteq> k) (reminders s),
                      db_reminders := delete_record r_id k (db_reminders s)\<rparr>))"
  by (simp add: deleteReminder_def andThen_def remove_run reminders_store_def setReminders_def)

lemma updateAppointment_run:
  "updateAppointment e a s =
     (if \<not> storage_ok e (store_requests s)
      then (Inl StorageUnavailable, s\<lparr>store_requests := Suc (store_requests s)\<rparr>)
      else (Inr (), s\<lparr>store_requests := Suc (store_requests s),
                      appointments := map (\<lambda>x. if a_id x = a_id a then a else x) (appointments s),
                      db_appointments := put_record a_id a (db_appointments s)\<rparr>))"
  by (simp add: updateAppointment_def andThen_def update_run appointments_store_def setAppointments_def)

lemma updateMedication_run:
  "updateMedication e m s =
     (if \<not> storage_ok e (store_requests s)
      then (Inl StorageUnavailable, s\<lparr>store_requests := Suc (store_requests s)\<rparr>)
      else (Inr (), s\<lparr>store_requests := Suc (store_requests s),
                      medications := map (\<lambda>x. if m_id x = m_id m then m else x) (medications s),
                      db_medications := put_record m_id m (db_medications s)\<rparr>))"
  by (simp add: updateMedication_def andThen_def update_run medications_store_def setMedications_def)

lemma insertAppointment_run:
  "andThen (add e appointments_store a) (\<lambda>_. setAppointments (\<lambda>prev. prev @ [a])) s =
     (if \<not> storage_ok e (store_requests s)
      then (Inl StorageUnavailable, s\<lparr>store_requests := Suc (store_requests s)\<rparr>)
      else if has_key a_id (a_id a) (db_appointments s)
      then (Inl DuplicateKey, s\<lparr>store_requests := Suc (store_requests s)\<rparr>)
      else (Inr (), s\<lparr>store_requests := Suc (store_requests s),
                      appointments := appointments s @ [a],
                      db_appointments := put_record a_id a (db_appointments s)\<rparr>))"
  by (simp add: andThen_def add_run appointments_store_def setAppointments_def)

lemma insertMedication_run:
  "andThen (add e medications_store m) (\<lambda>_. setMedications (\<lambda>prev. prev @ [m])) s =
     (if \<not> storage_ok e (store_requests s)
      then (Inl StorageUnavailable, s\<lparr>store_requests := Suc (store_requests s)\<rparr>)
      else if has_key m_id (m_id m) (db_medications s)
      then (Inl DuplicateKey, s\<lparr>store_requests := Suc (store_requests s)\<rparr>)
      else (Inr (), s\<lparr>store_requests := Suc (store_requests s),
                      medications := medications s @ [m],
                      db_medications := put_record m_id m (db_medications s)\<rparr>))"
  by (simp add: andThen_def add_run medications_store_def setMedications_def)

lemma dropAppointment_run:
  "andThen (remove e appointments_store k) (\<lambda>_. setAppointments (filter (\<lambda>a. a_id a \<noteq> k))) s =
     (if \<not> storage_ok e (store_requests s)
      then (Inl StorageUnavailable, s\<lparr>store_requests := Suc (store_requests s)\<rparr>)
      else (Inr (), s\<lparr>store_requests := Suc (store_requests s),
                      appointments := filter (\<lambda>a. a_id a \<noteq> k) (appointments s),
                      db_appointments := delete_record a_id k (db_appointments s)\<rparr>))"
  by (simp add: andThen_def remove_run appointments_store_def setAppointments_def)

lemma dropMedication_run:
  "andThen (remove e medications_store k) (\<lambda>_. setMedications (filter (\<lambda>m. m_id m \<noteq> k))) s =
     (if \<not> storage_ok e (store_requests s)
      then (Inl StorageUnavailable, s\<lparr>store_requests := Suc (store_requests s)\<rparr>)
      else (Inr (), s\<lparr>store_requests := Suc (store_requests s),
                      medications := filter (\<lambda>m. m_id m \<noteq> k) (medications s),
                      db_medications := delete_record m_id k (db_medications s)\<rparr>))"
  by (simp add: andThen_def remove_run medications_store_def setMedications_def)

lemma reload_run:
  "andThen (loadAll e) setLoaded s =
     (let s3 = s\<lparr>store_requests := Suc (Suc (Suc (store_requests s)))\<rparr>
      in if storage_ok e (store_requests s) \<and> storage_ok e (Suc (store_requests s))
            \<and> storage_ok e (Suc (Suc (store_requests s)))
         then (Inr (), s3\<lparr>reminders := db_reminders s, appointments := db_appointments s,
                          medications := db_medications s\<rparr>)
         else (Inl StorageUnavailable, s3))"
  by (simp add: andThen_def loadAll_def getAll_def openDatabase_def setLoaded_def
      reminders_store_def appointments_store_def medications_store_def
      setReminders_def setAppointments_def setMedications_def Let_def)

section \<open>Invariants of the compound operations, from those of their steps\<close>

lemma deleteRelatedReminders_preserves:
  assumes "\<And>k. preserves I (deleteReminder e k)"
  shows "preserves I (deleteRelatedReminders e rs)"
proof (induction rs)
  case Nil
  show ?case by (simp add: preserves_succeed)
next
  case (Cons r rs)
  show ?case
    unfolding deleteRelatedReminders.simps
    by (rule preserves_andThen [OF assms]) (rule Cons.IH)
qed

lemma addMedicationReminders_preserves:
  assumes "preserves I (now e)" and "\<And>f. preserves I (addReminder e f)"
  shows "preserves I (addMedicationReminders e medication newMedication ts)"
proof (induction ts)
  case Nil
  show ?case by (simp add: preserves_succeed)
next
  case (Cons t ts)
  show ?case
    unfolding addMedicationReminders.simps Let_def split_beta
    apply (rule preserves_andThen [OF assms(1)])
    apply (rule preserves_andThen [OF assms(1)])
    apply (rule preserves_andThen [OF assms(2)])
    apply (rule Cons.IH)
    done
qed

lemma addAppointment_preserves:
  assumes "preserves I (now e)" and "preserves I (generateId e)"
    and "\<And>a. preserves I (andThen (add e appointments_store a) (\<lambda>_. setAppointments (\<lambda>prev. prev @ [a])))"
    and "\<And>f. preserves I (addReminder e f)"
  shows "preserves I (addAppointment e appointment)"
  unfolding addAppointment_def Let_def
  apply (rule preserves_andThen [OF assms(2)])
  apply (rule preserves_andThen [OF assms(1)])
  apply (rule preserves_andThen_pair [OF assms(3)])
  apply (rule preserves_andThen [OF assms(4)])
  apply (rule preserves_succeed)
  done

lemma addMedication_preserves:
  assumes "preserves I (now e)" and "preserves I (generateId e)"
    and "\<And>m. preserves I (andThen (add e medications_store m) (\<lambda>_. setMedications (\<lambda>prev. prev @ [m])))"
    and "\<And>f. preserves I (addReminder e f)"
  shows "preserves I (addMedication e medication)"
  unfolding addMedication_def Let_def
  apply (rule preserves_andThen [OF assms(2)])
  apply (rule preserves_andThen [OF assms(1)])
  apply (rule preserves_andThen_pair [OF assms(3)])
  apply (rule preserves_andThen [OF addMedicationReminders_preserves [OF assms(1) assms(4)]])
  apply (rule preserves_succeed)
  done

lemma deleteAppointment_preserves:
  assumes "preserves I (andThen (remove e appointments_store k) (\<lambda>_. setAppointments (filter (\<lambda>a. a_id a \<noteq> k))))"
    and "\<And>k. preserves I (deleteReminder e k)"
  shows "preserves I (deleteAppointment e k)"
proof (rule preservesI)
  fix s assume i: "I s"
  have "preserves I (andThen (remove e appointments_store k) (\<lambda>_.
          andThen (setAppointments (filter (\<lambda>a. a_id a \<noteq> k))) (\<lambda>_.
          deleteRelatedReminders e (filter (\<lambda>r. relatedId r = Some k) (reminders s)))))"
    by (rule preserves_andThen_pair [OF assms(1)])
       (rule deleteRelatedReminders_preserves [OF assms(2)])
  from preservesD [OF this i] show "I (snd (deleteAppointment e k s))"
    by (simp add: deleteAppointment_def Let_def)
qed

lemma deleteMedication_preserves:
  assumes "preserves I (andThen (remove e medications_store k) (\<lambda>_. setMedications (filter (\<lambda>m. m_id m \<noteq> k))))"
    and "\<And>k. preserves I (deleteReminder e k)"
  shows "preserves I (deleteMedication e k)"
proof (rule preservesI)
  fix s assume i: "I s"
  have "preserves I (andThen (remove e medications_store k) (\<lambda>_.
          andThen (setMedications (filter (\<lambda>m. m_id m \<noteq> k))) (\<lambda>_.
          deleteRelatedReminders e (filter (\<lambda>r. relatedId r = Some k) (reminders s)))))"
    by (rule preserves_andThen_pair [OF assms(1)])
       (rule deleteRelatedReminders_preserves [OF assms(2)])
  from preservesD [OF this i] show "I (snd (deleteMedication e k s))"
    by (simp add: deleteMedication_def Let_def)
qed

lemma seedDemoData_preserves:
  assumes "preserves I (now e)" and "preserves I (generateId e)"
    and "\<And>a. preserves I (andThen (add e appointments_store a) (\<lambda>_. setAppointments (\<lambda>prev. prev @ [a])))"
    and "\<And>m. preserves I (andThen (add e medications_store m) (\<lambda>_. setMedications (\<lambda>prev. prev @ [m])))"
    and "\<And>f. preserves I (addReminder e f)"
    and "\<And>r. r_status r \<noteq> Missed \<Longrightarrow> preserves I (add e reminders_store r)"
    and "preserves I (andThen (loadAll e) setLoaded)"
  shows "preserves I (seedDemoData e)"
  unfolding seedDemoData_def Let_def
  apply (rule preserves_andThen [OF assms(1)])
  apply (rule preserves_andThen [OF addMedication_preserves [OF assms(1) assms(2) assms(4) assms(5)]])
  apply (rule preserves_andThen [OF addMedication_preserves [OF assms(1) assms(2) assms(4) assms(5)]])
  apply (rule preserves_andThen [OF assms(2)])
  apply (rule preserves_andThen [OF assms(2)])
  apply (rule preserves_andThen [OF assms(2)])
  apply (rule preserves_andThen [OF assms(2)])
  apply (rule preserves_andThen [OF addAppointment_preserves [OF assms(1) assms(2) assms(3) assms(5)]])
  apply (rule preserves_andThen [OF assms(2)])
  apply (rule preserves_andThen)
   apply (rule assms(6), simp)
  apply (rule preserves_andThen [OF assms(2)])
  apply (rule preserves_andThen)
   apply (rule assms(6), simp)
  apply (rule assms(7))
  done

lemma exec_preserves:
  assumes "preserves I (now e)" and "preserves I (generateId e)"
    and "\<And>a. preserves I (andThen (add e appointments_store a) (\<lambda>_. setAppointments (\<lambda>prev. prev @ [a])))"
    and "\<And>m. preserves I (andThen (add e medications_store m) (\<lambda>_. setMedications (\<lambda>prev. prev @ [m])))"
    and "\<And>f. preserves I (addReminder e f)"
    and "\<And>r. r_status r \<noteq> Missed \<Longrightarrow> preserves I (add e reminders_store r)"
    and "preserves I (andThen (loadAll e) setLoaded)"
    and "\<And>k. preserves I (andThen (remove e appointments_store k) (\<lambda>_. setAppointments (filter (\<lambda>a. a_id a \<noteq> k))))"
    and "\<And>k. preserves I (andThen (remove e medications_store k) (\<lambda>_. setMedications (filter (\<lambda>m. m_id m \<noteq> k))))"
    and "\<And>k. preserves I (deleteReminder e k)"
    and "\<And>a. preserves I (updateAppointment e a)"
    and "\<And>m. preserves I (updateMedication e m)"
    and "\<And>r. operation = UpdateReminder r \<Longrightarrow> preserves I (updateReminder e r)"
  shows "preserves I (exec e operation)"
proof (cases operation)
  case (AddReminder f)
  then show ?thesis by (simp add: preserves_andThen [OF assms(5)] preserves_succeed)
next
  case (UpdateReminder r)
  then show ?thesis using assms(13) by simp
next
  case (DeleteReminder k)
  then show ?thesis using assms(10) by simp
next
  case (AddAppointment f)
  then show ?thesis
    by (simp add: preserves_andThen [OF addAppointment_preserves [OF assms(1) assms(2) assms(3) assms(5)]]
        preserves_succeed)
next
  case (UpdateAppointment a)
  then show ?thesis using assms(11) by simp
next
  case (DeleteAppointment k)
  then show ?thesis using deleteAppointment_preserves [OF assms(8) assms(10)] by simp
next
  case (AddMedication f)
  then show ?thesis
    by (simp add: preserves_andThen [OF addMedication_preserves [OF assms(1) assms(2) assms(4) assms(5)]]
        preserves_succeed)
next
  case (UpdateMedication m)
  then show ?thesis using assms(12) by simp
next
  case (DeleteMedication k)
  then show ?thesis using deleteMedication_preserves [OF assms(9) assms(10)] by simp
next
  case SeedDemoData
  then show ?thesis
    using seedDemoData_preserves [OF assms(1) assms(2) assms(3) assms(4) assms(5) assms(6) assms(7)]
    by simp
qed

section \<open>The mirrors stay consistent with the stores\<close>

lemma consistent_now: "preserves consistent (now e)"
  by (simp add: preserves_def now_def consistent_def)

lemma consistent_generateId: "preserves consistent (generateId e)"
  by (simp add: preserves_def generateId_run consistent_def)

lemma consistent_addReminder: "preserves consistent (addReminder e f)"
  by (simp add: preserves_def addReminder_run consistent_def Let_def mirrored_add)

lemma consistent_updateReminder: "preserves consistent (updateReminder e r)"
  by (simp add: preserves_def updateReminder_run consistent_def mirrored_update)

lemma consistent_deleteReminder: "preserves consistent (deleteReminder e k)"
  by (simp add: preserves_def deleteReminder_run consistent_def mirrored_delete)

lemma consistent_updateAppointment: "preserves consistent (updateAppointment e a)"
  by (simp add: preserves_def updateAppointment_run consistent_def mirrored_update)

lemma consistent_updateMedication: "preserves consistent (updateMedication e m)"
  by (simp add: preserves_def updateMedication_run consistent_def mirrored_update)

lemma consistent_insertAppointment:
  "preserves consistent (andThen (add e appointments_store a) (\<lambda>_. setAppointments (\<lambda>prev. prev @ [a])))"
  by (simp add: preserves_def insertAppointment_run consistent_def mirrored_add)

lemma consistent_insertMedication:
  "preserves consistent (andThen (add e medications_store m) (\<lambda>_. setMedications (\<lambda>prev. prev @ [m])))"
  by (simp add: preserves_def insertMedication_run consistent_def mirrored_add)

lemma consistent_dropAppointment:
  "preserves consistent (andThen (remove e appointments_store k) (\<lambda>_. setAppointments (filter (\<lambda>a. a_id a \<noteq> k))))"
  by (simp add: preserves_def dropAppointment_run consistent_def mirrored_delete)

lemma consistent_dropMedication:
  "preserves consistent (andThen (remove e medications_store k) (\<lambda>_. setMedications (filter (\<lambda>m. m_id m \<noteq> k))))"
  by (simp add: preserves_def dropMedication_run consistent_def mirrored_delete)

lemma consistent_storeAdd: "preserves consistent (add e reminders_store r)"
  by (simp add: preserves_def add_run reminders_store_def consistent_def mirrored_store_add)

lemma consistent_reload: "preserves consistent (andThen (loadAll e) setLoaded)"
  by (simp add: preserves_def reload_run consistent_def Let_def mirrored_def keyed_distinct)

lemma consistent_exec: "preserves consistent (exec e operation)"
  by (rule exec_preserves)
     (rule consistent_now consistent_generateId consistent_insertAppointment
        consistent_insertMedication consistent_addReminder consistent_storeAdd consistent_reload
        consistent_dropAppointment consistent_dropMedication consistent_deleteReminder
        consistent_updateAppointment consistent_updateMedication consistent_updateReminder)+

lemma consistent_loadData: "preserves consistent (loadData e)"
proof (rule preservesI)
  fix s assume "consistent s"
  from preservesD [OF consistent_reload this, of e]
  show "consistent (snd (loadData e s))"
    by (cases "andThen (loadAll e) setLoaded s") (auto simp: loadData_def split: sum.splits)
qed

lemma reachable_consistent: "reachable s \<Longrightarrow> consistent s"
proof (induction rule: reachable.induct)
  case (mounted s e)
  then have "consistent s"
    by (simp add: consistent_def mirrored_def wellFormedStores_def)
  then show ?case by (rule preservesD [OF consistent_loadData])
next
  case (step s e operation)
  then show ?case by (simp add: preservesD [OF consistent_exec])
qed

lemma andThen_eq_Inr:
  "andThen m f s = (Inr y, s') \<longleftrightarrow> (\<exists>x s1. m s = (Inr x, s1) \<and> f x s1 = (Inr y, s'))"
  by (cases m f s rule: andThen_cases) auto


section \<open>Adding an appointment\<close>

lemma addReminder_returns:
  assumes "addReminder e f s = (Inr r, s')"
  shows "reminders s' = reminders s @ [r] \<and> appointments s' = appointments s
         \<and> medications s' = medications s
         \<and> set (db_reminders s') = insert r (set (db_reminders s))
         \<and> db_appointments s' = db_appointments s \<and> db_medications s' = db_medications s
         \<and> r_type r = rf_type f \<and> scheduledTime r = rf_scheduledTime f \<and> relatedId r = rf_relatedId f
         \<and> r_status r = Pending \<and> snoozeCount r = 0 \<and> r_title r = rf_title f
         \<and> r_description r = rf_description f \<and> snoozedUntil r = rf_snoozedUntil f
         \<and> clock_reads s' = clock_reads s + 2 \<and> random_draws s' = Suc (random_draws s)"
  using assms by (auto simp: addReminder_run Let_def set_put_record_fresh split: if_splits)

lemma hour_before:
  "(case copyDate d of None \<Rightarrow> None | Some t \<Rightarrow> timeClip (t - 60 * 60 * 1000)) =
     (case d of
        None \<Rightarrow> None
      | Some T \<Rightarrow> if \<bar>T\<bar> \<le> maxTime \<and> - maxTime \<le> T - 3600000 then Some (T - 3600000) else None)"
  by (cases d) (auto simp: copyDate_def timeClip_def maxTime_def)

text \<open>
  Claim C2, as amended. When \<^verbatim>\<open>addAppointment\<close> returns, the appointment it returns has
  been added to the store and appended to the appointments, with status upcoming and the
  fields of the input, and exactly one reminder has been added to the store and appended
  to the reminders: of type appointment, related to the new appointment's identifier,
  pending, never snoozed. For a valid date-time \<open>T\<close> the reminder is scheduled 60 minutes
  before \<open>T\<close>, unless that instant lies before the first instant a \<^verbatim>\<open>Date\<close> can hold
  (8.64e15 ms before the epoch): then, and when the date-time is itself invalid, the
  scheduled time is the Invalid Date.
\<close>

theorem addAppointment_creates_reminder:
  assumes "addAppointment e a s = (Inr created, s')"
  shows "appointments s' = appointments s @ [created]
         \<and> set (db_appointments s') = insert created (set (db_appointments s))
         \<and> a_status created = Upcoming
         \<and> a_title created = af_title a \<and> a_doctor created = af_doctor a
         \<and> a_location created = af_location a \<and> dateTime created = af_dateTime a
         \<and> a_notes created = af_notes a \<and> checklist created = af_checklist a
         \<and> medications s' = medications s \<and> db_medications s' = db_medications s
         \<and> (\<exists>r. reminders s' = reminders s @ [r]
                \<and> set (db_reminders s') = insert r (set (db_reminders s))
                \<and> r_type r = Appointment \<and> relatedId r = Some (a_id created)
                \<and> scheduledTime r =
                    (case af_dateTime a of
                       None \<Rightarrow> None
                     | Some T \<Rightarrow>
                         if \<bar>T\<bar> \<le> maxTime \<and> - maxTime \<le> T - 60 * 60000 then Some (T - 60 * 60000)
                         else None)
                \<and> r_status r = Pending \<and> snoozeCount r = 0)"
  using assms unfolding addAppointment_def Let_def hour_before
  apply (clarsimp simp: andThen_eq_Inr generateId_run now_def succeed_def add_run
      appointments_store_def setAppointments_def set_put_record_fresh split: if_splits)
  apply (drule addReminder_returns)
  apply (cases "af_dateTime a")
   apply (simp_all add: set_put_record_fresh)
  done

section \<open>Cascading deletes\<close>




section \<open>Adding a medication\<close>

lemma addMedicationReminders_step:
  assumes "addMedicationReminders e medication newMedication (time # rest) s = (Inr u, s')"
  shows "\<exists>r s1.
    reminders s1 = reminders s @ [r] \<and> appointments s1 = appointments s
    \<and> medications s1 = medications s
    \<and> set (db_reminders s1) = insert r (set (db_reminders s))
    \<and> db_appointments s1 = db_appointments s \<and> db_medications s1 = db_medications s
    \<and> clock_reads s1 = clock_reads s + 4
    \<and> r_type r = Medication \<and> relatedId r = Some (m_id newMedication)
    \<and> r_status r = Pending \<and> snoozeCount r = 0
    \<and> scheduledTime r = entrySchedule e time (clock e (clock_reads s)) (clock e (clock_reads s + 1))
    \<and> addMedicationReminders e medication newMedication rest s1 = (Inr u, s')"
proof -
  from assms obtain f r s1 where
    a: "addReminder e f (s\<lparr>clock_reads := Suc (Suc (clock_reads s))\<rparr>) = (Inr r, s1)"
    and f: "rf_type f = Medication" "rf_relatedId f = Some (m_id newMedication)"
      "rf_scheduledTime f = entrySchedule e time (clock e (clock_reads s)) (clock e (clock_reads s + 1))"
    and rest: "addMedicationReminders e medication newMedication rest s1 = (Inr u, s')"
    by (auto simp: andThen_eq_Inr now_def Let_def split_beta entrySchedule_def)
  from addReminder_returns [OF a] f rest show ?thesis
    by (intro exI [of _ r] exI [of _ s1]) simp
qed

lemma addMedicationReminders_returns:
  "addMedicationReminders e medication newMedication ts s = (Inr u, s') \<Longrightarrow>
     \<exists>new. reminders s' = reminders s @ new \<and> length new = length ts
       \<and> medications s' = medications s \<and> appointments s' = appointments s
       \<and> set (db_reminders s') = set (db_reminders s) \<union> set new
       \<and> db_appointments s' = db_appointments s \<and> db_medications s' = db_medications s
       \<and> (\<forall>i < length ts.
             r_type (new ! i) = Medication \<and> relatedId (new ! i) = Some (m_id newMedication)
             \<and> r_status (new ! i) = Pending \<and> snoozeCount (new ! i) = 0
             \<and> scheduledTime (new ! i) =
                 entrySchedule e (ts ! i) (clock e (clock_reads s + 4 * i))
                   (clock e (clock_reads s + 4 * i + 1)))"
proof (induction ts arbitrary: s)
  case Nil
  then show ?case by (simp add: succeed_def)
next
  case (Cons time rest)
  from Cons.prems obtain r s1 where
    s1: "reminders s1 = reminders s @ [r]" "appointments s1 = appointments s"
      "medications s1 = medications s" "clock_reads s1 = clock_reads s + 4"
      "set (db_reminders s1) = insert r (set (db_reminders s))"
      "db_appointments s1 = db_appointments s" "db_medications s1 = db_medications s"
    and r: "r_type r = Medication" "relatedId r = Some (m_id newMedication)"
      "r_status r = Pending" "snoozeCount r = 0"
    and sched: "scheduledTime r =
        entrySchedule e time (clock e (clock_reads s)) (clock e (clock_reads s + 1))"
    and rest: "addMedicationReminders e medication newMedication rest s1 = (Inr u, s')"
    using addMedicationReminders_step [OF Cons.prems] by blast
  from Cons.IH [OF rest] obtain new where new:
    "reminders s' = reminders s1 @ new" "length new = length rest"
    "medications s' = medications s1" "appointments s' = appointments s1"
    "set (db_reminders s') = set (db_reminders s1) \<union> set new"
    "db_appointments s' = db_appointments s1" "db_medications s' = db_medications s1"
    and each: "\<And>i. i < length rest \<Longrightarrow>
             r_type (new ! i) = Medication \<and> relatedId (new ! i) = Some (m_id newMedication)
             \<and> r_status (new ! i) = Pending \<and> snoozeCount (new ! i) = 0
             \<and> scheduledTime (new ! i) =
                 entrySchedule e (rest ! i) (clock e (clock_reads s1 + 4 * i))
                   (clock e (clock_reads s1 + 4 * i + 1))"
    by blast
  have shift: "\<And>j. clock_reads s1 + 4 * j = clock_reads s + 4 * Suc j" using s1 by simp
  show ?case
  proof (intro exI [of _ "r # new"] conjI allI impI)
    show "reminders s' = reminders s @ r # new" using new s1 by simp
    show "length (r # new) = length (time # rest)" using new by simp
    show "medications s' = medications s" using new s1 by simp
    show "appointments s' = appointments s" using new s1 by simp
    show "set (db_reminders s') = set (db_reminders s) \<union> set (r # new)" using new s1 by auto
    show "db_appointments s' = db_appointments s" using new s1 by simp
    show "db_medications s' = db_medications s" using new s1 by simp
  next
    fix i assume i: "i < length (time # rest)"
    show "r_type ((r # new) ! i) = Medication" using i r each by (cases i) simp_all
    show "relatedId ((r # new) ! i) = Some (m_id newMedication)" using i r each by (cases i) simp_all
    show "r_status ((r # new) ! i) = Pending" using i r each by (cases i) simp_all
    show "snoozeCount ((r # new) ! i) = 0" using i r each by (cases i) simp_all
    show "scheduledTime ((r # new) ! i) =
            entrySchedule e ((time # rest) ! i) (clock e (clock_reads s + 4 * i))
              (clock e (clock_reads s + 4 * i + 1))"
    proof (cases i)
      case 0
      with sched show ?thesis by simp
    next
      case (Suc j)
      then have j: "j < length rest" using i by simp
      from each [OF j] show ?thesis unfolding Suc shift by simp
    qed
  qed
qed

lemma reading_index: "(n::nat) + 3 + k = Suc (Suc (Suc (n + k)))" "n + 2 + k = Suc (Suc (n + k))"
  by simp_all

lemma addMedication_returns:
  assumes "addMedication e medication s = (Inr created, s')"
  shows "medications s' = medications s @ [created]
       \<and> set (db_medications s') = insert created (set (db_medications s))
       \<and> m_name created = mf_name medication \<and> m_dosage created = mf_dosage medication
       \<and> m_frequency created = mf_frequency medication \<and> m_times created = mf_times medication
       \<and> m_notes created = mf_notes medication
       \<and> appointments s' = appointments s \<and> db_appointments s' = db_appointments s
       \<and> (\<exists>new. reminders s' = reminders s @ new \<and> length new = length (mf_times medication)
            \<and> set (db_reminders s') = set (db_reminders s) \<union> set new
            \<and> (\<forall>i < length (mf_times medication).
                  r_type (new ! i) = Medication \<and> relatedId (new ! i) = Some (m_id created)
                  \<and> r_status (new ! i) = Pending \<and> snoozeCount (new ! i) = 0
                  \<and> scheduledTime (new ! i) =
                      entrySchedule e (mf_times medication ! i) (clock e (clock_reads s + 2 + 4 * i))
                        (clock e (clock_reads s + 3 + 4 * i))))"
  using assms unfolding addMedication_def Let_def
  apply (clarsimp simp: andThen_eq_Inr generateId_run now_def succeed_def add_run
        medications_store_def setMedications_def set_put_record_fresh split: if_splits)
  apply (drule addMedicationReminders_returns)
  apply (clarsimp simp: reading_index set_put_record_fresh)
  done

text \<open>Time strings.\<close>

lemma digitChar_digit:
  assumes "k < 10"
  shows "isDigit (digitChar k) \<and> digitChar k \<noteq> CHR '':'' \<and> int (of_char (digitChar k)) - 48 = int k"
proof -
  from assms have "k = 0 \<or> k = 1 \<or> k = 2 \<or> k = 3 \<or> k = 4 \<or> k = 5 \<or> k = 6 \<or> k = 7 \<or> k = 8 \<or> k = 9"
    by presburger
  then show ?thesis by (elim disjE) (simp_all add: digitChar_def isDigit_def)
qed

lemma toNumber_twoDigits:
  assumes "n < 100"
  shows "toNumber e (twoDigits n) = Some (int n)"
proof -
  have a: "n div 10 < 10" "n mod 10 < 10" using assms by simp_all
  have "decimalValue (twoDigits n) = 10 * int (n div 10) + int (n mod 10)"
    using digitChar_digit [OF a(1)] digitChar_digit [OF a(2)]
    by (simp add: decimalValue_def twoDigits_def)
  also have "\<dots> = int n" by presburger
  finally have v: "decimalValue (twoDigits n) = int n" .
  have "list_all isDigit (twoDigits n)"
    using digitChar_digit [OF a(1)] digitChar_digit [OF a(2)] by (simp add: twoDigits_def)
  then show ?thesis using v assms by (simp add: toNumber_def twoDigits_def)
qed

lemma parseTime_timeString:
  assumes "h < 100" and "m < 100"
  shows "parseTime e (timeString h m) = (Some (int h), Some (int m))"
proof -
  have a: "h div 10 < 10" "h mod 10 < 10" "m div 10 < 10" "m mod 10 < 10" using assms by simp_all
  have "splitOn CHR '':'' (timeString h m) = [twoDigits h, twoDigits m]"
    using digitChar_digit [OF a(1)] digitChar_digit [OF a(2)]
      digitChar_digit [OF a(3)] digitChar_digit [OF a(4)]
    by (simp add: timeString_def twoDigits_def)
  then show ?thesis
    using toNumber_twoDigits [OF assms(1)] toNumber_twoDigits [OF assms(2)]
    by (simp add: parseTime_def)
qed

lemma entrySchedule_timeString:
  assumes z: "zoneBound e" and h: "h < 24" and m: "m < 60" and t: "\<bar>t1\<bar> \<le> 8000000000000000"
  shows "entrySchedule e (timeString h m) t1 t2 =
           (let wall = localTime e t1 div msPerDay * msPerDay + int h * 3600000 + int m * 60000;
                today = utc e wall
            in Some (if today < t2 then utc e (localTime e today + msPerDay) else today))"
proof -
  define wall where "wall = localTime e t1 div msPerDay * msPerDay + int h * 3600000 + int m * 60000"
  have D: "msPerDay = 86400000" by (simp add: msPerDay_def)
  have t': "\<bar>t1\<bar> \<le> 8500000000000000" using t by simp
  have p: "parseTime e (timeString h m) = (Some (int h), Some (int m))"
    using h m by (intro parseTime_timeString) simp_all
  have tod: "0 \<le> int h" "int h < 24" "0 \<le> int m" "int m < 60" using h m by simp_all
  have s: "setHours e (Some t1) (Some (int h)) (Some (int m)) 0 0 = Some (utc e wall)"
    using setHours_exact(1) [OF z t' tod, of 0 0] by (simp add: wall_def add.assoc)
  have b: "\<bar>utc e wall - t1\<bar> \<le> 4 * msPerDay"
    using setHours_exact(2) [OF z t' tod, of 0 0] by (simp add: wall_def add.assoc)
  have u: "\<bar>utc e wall\<bar> \<le> 8500000000000000" using b t D by linarith
  have a: "addDays e (Some (utc e wall)) 1 = Some (utc e (localTime e (utc e wall) + msPerDay))"
    using addDays_exact(1) [OF z u, of 1] by simp
  show ?thesis
    by (simp add: entrySchedule_def p s a dateLess_def Let_def wall_def [symmetric])
qed

text \<open>
  Claim C1, as amended. When \<^verbatim>\<open>addMedication\<close> returns, the medication it returns has
  been added to the store and appended to the medications with the fields of the input,
  and one reminder per entry of \<open>times\<close> has been added to the store and appended to the
  reminders, in order: of type medication, related to the new medication's identifier,
  pending, never snoozed. For an entry that is a time of day \<open>hh:mm\<close>, the reminder is
  scheduled today at \<open>hh:mm\<close> unless that instant is earlier than the clock, and on the
  next day otherwise. Here the clock is read anew for each entry: \<open>today\<close> is the instant
  the host resolves the wall-clock time \<open>hh:mm:00.000\<close> on the local day of the reading
  \<open>t1\<close> to, and it is compared with the reading \<open>t2\<close> taken next, both later than the
  moment of the call by the time the earlier writes took. The next day is the local day
  after that of \<open>today\<close> at the wall-clock time \<open>today\<close> reads, which is \<open>hh:mm\<close> on the
  next day when \<open>hh:mm\<close> reads back today (no transition skips it). This holds when the
  host's offsets are at most a day and the reading \<open>t1\<close> is not within days of the limits
  of \<^verbatim>\<open>Date\<close>.
\<close>

theorem addMedication_creates_reminders:
  assumes "addMedication e medication s = (Inr created, s')" and "zoneBound e"
  shows "medications s' = medications s @ [created]
       \<and> set (db_medications s') = insert created (set (db_medications s))
       \<and> m_name created = mf_name medication \<and> m_dosage created = mf_dosage medication
       \<and> m_frequency created = mf_frequency medication \<and> m_times created = mf_times medication
       \<and> m_notes created = mf_notes medication
       \<and> appointments s' = appointments s \<and> db_appointments s' = db_appointments s
       \<and> (\<exists>new. reminders s' = reminders s @ new \<and> length new = length (mf_times medication)
            \<and> set (db_reminders s') = set (db_reminders s) \<union> set new
            \<and> (\<forall>i < length (mf_times medication).
                  r_type (new ! i) = Medication \<and> relatedId (new ! i) = Some (m_id created)
                  \<and> r_status (new ! i) = Pending \<and> snoozeCount (new ! i) = 0
                  \<and> (\<forall>h m. mf_times medication ! i = timeString h m \<and> h < 24 \<and> m < 60
                            \<and> \<bar>clock e (clock_reads s + 2 + 4 * i)\<bar> \<le> 8000000000000000 \<longrightarrow>
                       (let t1 = clock e (clock_reads s + 2 + 4 * i);
                            t2 = clock e (clock_reads s + 3 + 4 * i);
                            wall = localTime e t1 div msPerDay * msPerDay
                                     + int h * 3600000 + int m * 60000;
                            today = utc e wall
                        in scheduledTime (new ! i)
                             = Some (if today < t2 then utc e (localTime e today + msPerDay) else today)
                           \<and> (readsBack e wall \<and> today < t2 \<longrightarrow>
                                 scheduledTime (new ! i) = Some (utc e (wall + msPerDay)))))))"
proof -
  from addMedication_returns [OF assms(1)] obtain new where
    base: "medications s' = medications s @ [created]
       \<and> set (db_medications s') = insert created (set (db_medications s))
       \<and> m_name created = mf_name medication \<and> m_dosage created = mf_dosage medication
       \<and> m_frequency created = mf_frequency medication \<and> m_times created = mf_times medication
       \<and> m_notes created = mf_notes medication
       \<and> appointments s' = appointments s \<and> db_appointments s' = db_appointments s"
    and new: "reminders s' = reminders s @ new" "length new = length (mf_times medication)"
      "set (db_reminders s') = set (db_reminders s) \<union> set new"
    and each: "\<forall>i < length (mf_times medication).
                  r_type (new ! i) = Medication \<and> relatedId (new ! i) = Some (m_id created)
                  \<and> r_status (new ! i) = Pending \<and> snoozeCount (new ! i) = 0
                  \<and> scheduledTime (new ! i) =
                      entrySchedule e (mf_times medication ! i) (clock e (clock_reads s + 2 + 4 * i))
                        (clock e (clock_reads s + 3 + 4 * i))"
    by blast
  have "\<forall>i < length (mf_times medication).
          r_type (new ! i) = Medication \<and> relatedId (new ! i) = Some (m_id created)
          \<and> r_status (new ! i) = Pending \<and> snoozeCount (new ! i) = 0
          \<and> (\<forall>h m. mf_times medication ! i = timeString h m \<and> h < 24 \<and> m < 60
                    \<and> \<bar>clock e (clock_reads s + 2 + 4 * i)\<bar> \<le> 8000000000000000 \<longrightarrow>
               (let t1 = clock e (clock_reads s + 2 + 4 * i);
                    t2 = clock e (clock_reads s + 3 + 4 * i);
                    wall = localTime e t1 div msPerDay * msPerDay
                             + int h * 3600000 + int m * 60000;
                    today = utc e wall
                in scheduledTime (new ! i)
                     = Some (if today < t2 then utc e (localTime e today + msPerDay) else today)
                   \<and> (readsBack e wall \<and> today < t2 \<longrightarrow>
                         scheduledTime (new ! i) = Some (utc e (wall + msPerDay)))))"
    using each by (auto simp: Let_def entrySchedule_timeString [OF assms(2)] readsBack_def)
  with base new show ?thesis by blast
qed

section \<open>Identifiers\<close>

text \<open>
  Claim C9, as amended. In every state reachable by the exposed operations, no two
  records of the same mirror share an identifier: an insert under a key the store already
  holds fails before the mirror is touched. (Two calls of \<^verbatim>\<open>generateId\<close> in the same
  millisecond with the same random suffix do return the same string; the worked examples
  show one.)
\<close>

theorem reachable_ids_distinct:
  assumes "reachable s"
  shows "distinct (map r_id (reminders s)) \<and> distinct (map a_id (appointments s))
         \<and> distinct (map m_id (medications s))"
  using reachable_consistent [OF assms] by (simp add: consistent_def mirrored_def)

section \<open>Failed writes\<close>












section \<open>Where a missed reminder can come from\<close>

lemma missedWithin_put:
  assumes "\<forall>r \<in> set xs. r_status r = Missed \<longrightarrow> r \<in> M" and "r_status x = Missed \<longrightarrow> x \<in> M"
  shows "\<forall>r \<in> set (put_record r_id x xs). r_status r = Missed \<longrightarrow> r \<in> M"
  using assms set_put_record [of r_id x xs] by auto

lemma missed_now: "preserves (missedWithin M) (now e)"
  by (simp add: preserves_def now_def missedWithin_def)

lemma missed_generateId: "preserves (missedWithin M) (generateId e)"
  by (simp add: preserves_def generateId_run missedWithin_def)

lemma missed_addReminder: "preserves (missedWithin M) (addReminder e f)"
  unfolding preserves_def missedWithin_def
  by (auto simp: addReminder_run Let_def dest!: subsetD [OF set_put_record])

lemma missed_updateReminder:
  "(r_status r = Missed \<longrightarrow> r \<in> M) \<Longrightarrow> preserves (missedWithin M) (updateReminder e r)"
  unfolding preserves_def missedWithin_def
  by (auto simp: updateReminder_run dest!: subsetD [OF set_put_record] split: if_splits)

lemma missed_deleteReminder: "preserves (missedWithin M) (deleteReminder e k)"
  unfolding preserves_def missedWithin_def
  by (auto simp: deleteReminder_run delete_record_def)

lemma missed_updateAppointment: "preserves (missedWithin M) (updateAppointment e a)"
  by (simp add: preserves_def updateAppointment_run missedWithin_def)

lemma missed_updateMedication: "preserves (missedWithin M) (updateMedication e m)"
  by (simp add: preserves_def updateMedication_run missedWithin_def)

lemma missed_insertAppointment:
  "preserves (missedWithin M) (andThen (add e appointments_store a) (\<lambda>_. setAppointments (\<lambda>prev. prev @ [a])))"
  by (simp add: preserves_def insertAppointment_run missedWithin_def)

lemma missed_insertMedication:
  "preserves (missedWithin M) (andThen (add e medications_store m) (\<lambda>_. setMedications (\<lambda>prev. prev @ [m])))"
  by (simp add: preserves_def insertMedication_run missedWithin_def)

lemma missed_dropAppointment:
  "preserves (missedWithin M) (andThen (remove e appointments_store k) (\<lambda>_. setAppointments (filter (\<lambda>a. a_id a \<noteq> k))))"
  by (simp add: preserves_def dropAppointment_run missedWithin_def)

lemma missed_dropMedication:
  "preserves (missedWithin M) (andThen (remove e medications_store k) (\<lambda>_. setMedications (filter (\<lambda>m. m_id m \<noteq> k))))"
  by (simp add: preserves_def dropMedication_run missedWithin_def)

lemma missed_storeAdd:
  "r_status r \<noteq> Missed \<Longrightarrow> preserves (missedWithin M) (add e reminders_store r)"
  unfolding preserves_def missedWithin_def
  by (auto simp: add_run reminders_store_def dest!: subsetD [OF set_put_record])

lemma missed_reload: "preserves (missedWithin M) (andThen (loadAll e) setLoaded)"
  unfolding preserves_def missedWithin_def
  by (auto simp: reload_run Let_def)

lemma missed_exec:
  assumes "\<And>r. operation = UpdateReminder r \<Longrightarrow> r_status r = Missed \<Longrightarrow> r \<in> M"
  shows "preserves (missedWithin M) (exec e operation)"
  by (rule exec_preserves)
     (rule missed_now missed_generateId missed_insertAppointment missed_insertMedication
        missed_addReminder missed_storeAdd missed_reload missed_dropAppointment
        missed_dropMedication missed_deleteReminder missed_updateAppointment
        missed_updateMedication
      | rule missed_updateReminder, use assms in blast | assumption)+

text \<open>
  Claim C8, as amended. No operation gives a reminder the status missed by itself: a
  reminder that is missed in the mirror after an exposed operation was in the mirror or
  in the store before, or is the record the caller passed to \<^verbatim>\<open>updateReminder\<close>. Marking
  an appointment missed replaces the appointment record only; the reminders, in the mirror
  and in the store, are as before.
\<close>

theorem missed_only_from_caller:
  "reminders (snd (markAppointmentMissed (updateAppointment e) a s)) = reminders s
   \<and> db_reminders (snd (markAppointmentMissed (updateAppointment e) a s)) = db_reminders s
   \<and> (fst (markAppointmentMissed (updateAppointment e) a s) = Inr () \<longrightarrow>
        appointments (snd (markAppointmentMissed (updateAppointment e) a s))
          = map (\<lambda>x. if a_id x = a_id a then a\<lparr>a_status := AppointmentMissed\<rparr> else x) (appointments s))
   \<and> (r \<in> set (reminders (snd (exec e operation s))) \<and> r_status r = Missed \<longrightarrow>
        r \<in> set (reminders s) \<or> r \<in> set (db_reminders s) \<or> operation = UpdateReminder r)"
proof (intro conjI impI)
  show "reminders (snd (markAppointmentMissed (updateAppointment e) a s)) = reminders s"
    by (simp add: markAppointmentMissed_def updateAppointment_run)
  show "db_reminders (snd (markAppointmentMissed (updateAppointment e) a s)) = db_reminders s"
    by (simp add: markAppointmentMissed_def updateAppointment_run)
next
  assume "fst (markAppointmentMissed (updateAppointment e) a s) = Inr ()"
  then show "appointments (snd (markAppointmentMissed (updateAppointment e) a s))
          = map (\<lambda>x. if a_id x = a_id a then a\<lparr>a_status := AppointmentMissed\<rparr> else x) (appointments s)"
    by (simp add: markAppointmentMissed_def updateAppointment_run split: if_splits)
next
  assume r: "r \<in> set (reminders (snd (exec e operation s))) \<and> r_status r = Missed"
  define M where "M = set (reminders s) \<union> set (db_reminders s)
                      \<union> (case operation of UpdateReminder x \<Rightarrow> {x} | _ \<Rightarrow> {})"
  have "missedWithin M s" by (simp add: missedWithin_def M_def)
  moreover have "preserves (missedWithin M) (exec e operation)"
    by (rule missed_exec) (simp add: M_def)
  ultimately have "missedWithin M (snd (exec e operation s))" by (rule preservesD [rotated])
  with r have "r \<in> M" by (simp add: missedWithin_def)
  then show "r \<in> set (reminders s) \<or> r \<in> set (db_reminders s) \<or> operation = UpdateReminder r"
    by (cases operation) (auto simp: M_def)
qed

section \<open>The snooze action of the notification modal\<close>

text \<open>
  Claim C7, as amended. The snooze action of the modal records the action, confirms,
  sets the close timer and passes the action with the reminder, as it is, to the
  \<^verbatim>\<open>onAction\<close> callback of its parent, once; that call is its only effect outside the
  modal. The confirmation message names the clock reading at rendering plus 15 minutes,
  formatted by the time formatter.
\<close>

theorem snooze_hands_over:
  "handleAction onAction reminder Snooze (m, w) = (m', w') \<longrightarrow>
     w' = onAction Snooze reminder w
     \<and> selectedAction m' = Some Snooze \<and> isConfirmed m' \<and> closeTimer m' = Some 2000
     \<and> getConfirmationMessage formatTime t reminder m'
         = alarmClock @ '' Snoozed! I'' @ [CHR 0x27] @ ''ll remind you again at ''
             @ formatTime (t + 15 * 60000)"
  by (auto simp: handleAction_def getConfirmationMessage_def addMinutes_def)

section \<open>Worked examples\<close>

text \<open>Each example runs the operations on concrete data, one step at a time.\<close>

declare digits.simps [simp del]

lemma sampleEnv_simps:
  "localTZA sampleEnv t b = 0" "clock sampleEnv n = 3600000 + int n"
  "random sampleEnv n = (if even n then ''0.k3j9x2m1q8z'' else ''0.7fh2kd9s1xw'')"
  "storage_ok sampleEnv n"
  by (simp_all add: sampleEnv_def utcZone_def)




lemma stuckEnv_simps:
  "localTZA stuckEnv t b = 0" "clock stuckEnv n = 3600000" "random stuckEnv n = ''0.k3j9x2m1q8z''"
  "storage_ok stuckEnv n"
  by (simp_all add: stuckEnv_def sampleEnv_def utcZone_def)

lemma raceEnv_simps:
  "localTZA raceEnv t b = 0" "clock raceEnv n = 28799990 + 5 * int n"
  "random raceEnv n = (if even n then ''0.k3j9x2m1q8z'' else ''0.7fh2kd9s1xw'')"
  "storage_ok raceEnv n"
  by (simp_all add: raceEnv_def sampleEnv_def utcZone_def)

lemma newYork_simps:
  "localTZA newYork t b = newYorkZone t b" "clock newYork n = 1709996400000 + int n"
  "random newYork n = (if even n then ''0.k3j9x2m1q8z'' else ''0.7fh2kd9s1xw'')"
  "storage_ok newYork n"
  by (simp_all add: newYork_def sampleEnv_def)



lemma sample_times:
  "parseTime e ''08:00'' = (Some 8, Some 0)" "parseTime e ''09:00'' = (Some 9, Some 0)"
  "parseTime e ''20:00'' = (Some 20, Some 0)"
  by (simp_all add: parseTime_def toNumber_def isDigit_def decimalValue_def)

lemmas eval_date = setHours_def addDays_def makeTime_def makeDate_def toDouble_def localTime_def
  utc_def timeClip_def copyDate_def dateLess_def dateLessEq_def maxTime_def msPerDay_def
  getDay_def weekDay_def

lemmas eval_steps = andThen_def now_def Let_def succeed_def generateId_run add_run update_run
  remove_run has_key_def delete_record_def numberToString_def digits.simps digitChar_def
  reminders_store_def appointments_store_def medications_store_def
  setReminders_def setAppointments_def setMedications_def eval_date

lemmas eval_reminder = addReminder_run deleteReminder_run Let_def has_key_def delete_record_def
  numberToString_def digits.simps digitChar_def succeed_def

lemma addAppointment_sample:
  "fst (addAppointment sampleEnv sampleAppointment emptySys) = Inr bookedVisit"
  apply (simp add: addAppointment_def sampleAppointment_def emptySys_def sampleEnv_simps eval_steps)
  apply (simp add: sampleEnv_simps eval_reminder bookedVisit_def)
  done

lemma addMedication_newYork:
  "fst (addMedication newYork eveningPills emptySys) = Inr aspirin"
  apply (simp add: addMedication_def eveningPills_def emptySys_def newYork_simps eval_steps
      del: addMedicationReminders.simps)
  apply (simp add: newYork_simps newYorkZone_def eval_steps sample_times)
  apply (simp add: newYork_simps eval_reminder)
  apply (simp add: newYork_simps newYorkZone_def eval_steps sample_times)
  apply (simp add: newYork_simps eval_reminder aspirin_def)
  done

lemmas sample_records = pill_def visit_def pillReminder_def visitReminder_def looseReminder_def
  vitamin_def dentist_def

lemma newYork_zoneBound: "zoneBound newYork"
  by (simp add: zoneBound_def newYork_simps newYorkZone_def msPerDay_def)

text \<open>New York, Saturday 9 March 2024, 10:00. A medication taken at 08:00 and 20:00 gets a
  reminder for Sunday 08:00, which is 23 hours after Saturday 08:00 because the clocks go
  forward in between, and one for the same day 20:00.\<close>

theorem addMedication_creates_reminders_witness:
  "zoneBound newYork
   \<and> fst (addMedication newYork eveningPills emptySys) = Inr aspirin
   \<and> medications (snd (addMedication newYork eveningPills emptySys)) = [aspirin]
   \<and> set (db_medications (snd (addMedication newYork eveningPills emptySys))) = {aspirin}
   \<and> map scheduledTime (reminders (snd (addMedication newYork eveningPills emptySys)))
        = [Some 1710072000000, Some 1710032400000]
   \<and> map relatedId (reminders (snd (addMedication newYork eveningPills emptySys)))
        = [Some (m_id aspirin), Some (m_id aspirin)]
   \<and> set (db_reminders (snd (addMedication newYork eveningPills emptySys)))
        = set (reminders (snd (addMedication newYork eveningPills emptySys)))"
proof -
  let ?s' = "snd (addMedication newYork eveningPills emptySys)"
  have run: "addMedication newYork eveningPills emptySys = (Inr aspirin, ?s')"
    using addMedication_newYork by (simp add: prod_eq_iff)
  from addMedication_creates_reminders [OF run newYork_zoneBound] obtain new where
    m: "medications ?s' = medications emptySys @ [aspirin]"
      "set (db_medications ?s') = insert aspirin (set (db_medications emptySys))"
    and n: "reminders ?s' = reminders emptySys @ new" "length new = length (mf_times eveningPills)"
      "set (db_reminders ?s') = set (db_reminders emptySys) \<union> set new"
    and each: "\<forall>i < length (mf_times eveningPills).
        r_type (new ! i) = Medication \<and> relatedId (new ! i) = Some (m_id aspirin)
        \<and> r_status (new ! i) = Pending \<and> snoozeCount (new ! i) = 0
        \<and> (\<forall>h m. mf_times eveningPills ! i = timeString h m \<and> h < 24 \<and> m < 60
                  \<and> \<bar>clock newYork (clock_reads emptySys + 2 + 4 * i)\<bar> \<le> 8000000000000000 \<longrightarrow>
              (let t1 = clock newYork (clock_reads emptySys + 2 + 4 * i);
                   t2 = clock newYork (clock_reads emptySys + 3 + 4 * i);
                   wall = localTime newYork t1 div msPerDay * msPerDay
                            + int h * 3600000 + int m * 60000;
                   today = utc newYork wall
               in scheduledTime (new ! i)
                    = Some (if today < t2 then utc newYork (localTime newYork today + msPerDay) else today)
                  \<and> (readsBack newYork wall \<and> today < t2 \<longrightarrow>
                        scheduledTime (new ! i) = Some (utc newYork (wall + msPerDay)))))"
    by blast
  from n have len: "length new = 2" by (simp add: eveningPills_def)
  then obtain x y where new: "new = [x, y]"
    by (cases new; cases "tl new") auto
  have t: "timeString 8 0 = ''08:00''" "timeString 20 0 = ''20:00''"
    by (simp_all add: timeString_def twoDigits_def digitChar_def)
  from each have r: "relatedId (new ! 0) = Some (m_id aspirin)" "relatedId (new ! 1) = Some (m_id aspirin)"
    by (simp_all add: eveningPills_def)
  from each have e: "\<And>i h m. i < length (mf_times eveningPills) \<Longrightarrow>
        mf_times eveningPills ! i = timeString h m \<and> h < 24 \<and> m < 60
          \<and> \<bar>clock newYork (clock_reads emptySys + 2 + 4 * i)\<bar> \<le> 8000000000000000 \<Longrightarrow>
        (let t1 = clock newYork (clock_reads emptySys + 2 + 4 * i);
             t2 = clock newYork (clock_reads emptySys + 3 + 4 * i);
             wall = localTime newYork t1 div msPerDay * msPerDay
                      + int h * 3600000 + int m * 60000;
             today = utc newYork wall
         in scheduledTime (new ! i)
              = Some (if today < t2 then utc newYork (localTime newYork today + msPerDay) else today))"
    by (simp add: Let_def)
  from e [of 0 8 0] have x: "scheduledTime x = Some 1710072000000"
    by (simp add: new eveningPills_def t newYork_simps newYorkZone_def emptySys_def Let_def
        localTime_def utc_def msPerDay_def)
  from e [of 1 20 0] have y: "scheduledTime y = Some 1710032400000"
    by (simp add: new eveningPills_def t newYork_simps newYorkZone_def emptySys_def Let_def
        localTime_def utc_def msPerDay_def)
  show ?thesis
    using addMedication_newYork newYork_zoneBound m n r x y by (simp add: new emptySys_def)
qed

lemma addMedication_race:
  "fst (addMedication raceEnv morningPills emptySys) = Inr ramipril
   \<and> map scheduledTime (reminders (snd (addMedication raceEnv morningPills emptySys)))
        = [Some 32400000, Some 115200000]"
  apply (simp add: addMedication_def morningPills_def emptySys_def raceEnv_simps eval_steps
      del: addMedicationReminders.simps)
  apply (simp add: raceEnv_simps eval_steps sample_times)
  apply (simp add: raceEnv_simps eval_reminder)
  apply (simp add: raceEnv_simps eval_steps sample_times)
  apply (simp add: raceEnv_simps eval_reminder ramipril_def)
  done

text \<open>A call that begins ten milliseconds before 08:00, for the times 09:00 and 08:00.
  The reminder for 09:00 is written first; when the loop reaches 08:00 the clock is past
  it, and the reminder is scheduled for 08:00 of the next day (115200000), although 08:00
  (28800000) had not passed at the moment of the call.\<close>

theorem addMedication_race_counterexample:
  "clock raceEnv 0 = 28799990
   \<and> utc raceEnv (localTime raceEnv (clock raceEnv 0) div msPerDay * msPerDay + 8 * 3600000) = 28800000
   \<and> clock raceEnv 0 < 28800000
   \<and> fst (addMedication raceEnv morningPills emptySys) = Inr ramipril
   \<and> map scheduledTime (reminders (snd (addMedication raceEnv morningPills emptySys)))
        = [Some 32400000, Some 115200000]"
  using addMedication_race by (simp add: raceEnv_simps localTime_def utc_def msPerDay_def)

text \<open>An appointment at 25:00 hours after the epoch gets its reminder at 24:00.\<close>

theorem addAppointment_creates_reminder_witness:
  "fst (addAppointment sampleEnv sampleAppointment emptySys) = Inr bookedVisit
   \<and> appointments (snd (addAppointment sampleEnv sampleAppointment emptySys)) = [bookedVisit]
   \<and> set (db_appointments (snd (addAppointment sampleEnv sampleAppointment emptySys))) = {bookedVisit}
   \<and> a_status bookedVisit = Upcoming
   \<and> map scheduledTime (reminders (snd (addAppointment sampleEnv sampleAppointment emptySys)))
        = [Some 86400000]
   \<and> map relatedId (reminders (snd (addAppointment sampleEnv sampleAppointment emptySys)))
        = [Some (a_id bookedVisit)]
   \<and> map r_type (reminders (snd (addAppointment sampleEnv sampleAppointment emptySys)))
        = [Appointment]
   \<and> set (db_reminders (snd (addAppointment sampleEnv sampleAppointment emptySys)))
        = set (reminders (snd (addAppointment sampleEnv sampleAppointment emptySys)))"
proof -
  let ?s' = "snd (addAppointment sampleEnv sampleAppointment emptySys)"
  have run: "addAppointment sampleEnv sampleAppointment emptySys = (Inr bookedVisit, ?s')"
    using addAppointment_sample by (simp add: prod_eq_iff)
  from addAppointment_creates_reminder [OF run] addAppointment_sample show ?thesis
    by (auto simp: emptySys_def sampleAppointment_def maxTime_def)
qed

text \<open>An appointment at the first instant of the range of \<^verbatim>\<open>Date\<close>: the reminder is
  created, and its scheduled time is the Invalid Date.\<close>

theorem addAppointment_range_counterexample:
  "af_dateTime earliestAppointment = Some (- 8640000000000000)
   \<and> timeClip (- 8640000000000000) = Some (- 8640000000000000)
   \<and> fst (addAppointment sampleEnv earliestAppointment emptySys) = Inr earliestVisit
   \<and> map scheduledTime (reminders (snd (addAppointment sampleEnv earliestAppointment emptySys)))
        = [None]
   \<and> map relatedId (reminders (snd (addAppointment sampleEnv earliestAppointment emptySys)))
        = [Some (a_id earliestVisit)]"
  apply (simp add: addAppointment_def earliestAppointment_def emptySys_def sampleEnv_simps eval_steps)
  apply (simp add: sampleEnv_simps eval_reminder earliestVisit_def)
  done











lemma exec_AddAppointment:
  "snd (exec e (AddAppointment a) s) = snd (addAppointment e a s)"
  "(fst (exec e (AddAppointment a) s) = Inl err) = (fst (addAppointment e a s) = Inl err)"
  by (cases "addAppointment e a s"; cases "fst (addAppointment e a s)";
      simp add: andThen_def succeed_def)+



text \<open>A clock that has not advanced and a random source that repeats: two calls of
  \<^verbatim>\<open>generateId\<close>, one string.\<close>

theorem generateId_repeats_counterexample:
  "fst (generateId stuckEnv emptySys) = Inr ''3600000-k3j9x2m1q''
   \<and> fst (generateId stuckEnv (snd (generateId stuckEnv emptySys))) = Inr ''3600000-k3j9x2m1q''"
  by (simp add: generateId_run stuckEnv_simps numberToString_def digits.simps digitChar_def)

lemma loadData_clinic:
  "snd (loadData sampleEnv clinicDb) =
     clinicDb\<lparr>store_requests := 3, reminders := [pillReminder, visitReminder, looseReminder],
               appointments := [visit, dentist], medications := [pill, vitamin]\<rparr>"
  by (simp add: loadData_def reload_run Let_def sampleEnv_simps clinicDb_def eval_nat_numeral)

text \<open>The state after mounting over a database with three reminders, two appointments and
  two medications, and adding one appointment.\<close>

theorem reachable_ids_distinct_witness:
  "reachable (snd (exec sampleEnv (AddAppointment sampleAppointment) (snd (loadData sampleEnv clinicDb))))
   \<and> map r_id (reminders
        (snd (exec sampleEnv (AddAppointment sampleAppointment) (snd (loadData sampleEnv clinicDb)))))
        = [''r1'', ''r2'', ''r3'', ''3600002-7fh2kd9s1'']
   \<and> map a_id (appointments
        (snd (exec sampleEnv (AddAppointment sampleAppointment) (snd (loadData sampleEnv clinicDb)))))
        = [''a1'', ''a2'', ''3600000-k3j9x2m1q'']
   \<and> map m_id (medications
        (snd (exec sampleEnv (AddAppointment sampleAppointment) (snd (loadData sampleEnv clinicDb)))))
        = [''m1'', ''m2'']
   \<and> distinct (map r_id (reminders
        (snd (exec sampleEnv (AddAppointment sampleAppointment) (snd (loadData sampleEnv clinicDb))))))
   \<and> distinct (map a_id (appointments
        (snd (exec sampleEnv (AddAppointment sampleAppointment) (snd (loadData sampleEnv clinicDb))))))
   \<and> distinct (map m_id (medications
        (snd (exec sampleEnv (AddAppointment sampleAppointment) (snd (loadData sampleEnv clinicDb))))))"
proof -
  let ?s = "snd (exec sampleEnv (AddAppointment sampleAppointment) (snd (loadData sampleEnv clinicDb)))"
  have "wellFormedStores clinicDb"
    by (simp add: wellFormedStores_def keyed_def clinicDb_def sample_records)
  then have "reachable (snd (loadData sampleEnv clinicDb))"
    by (rule reachable.mounted) (simp_all add: clinicDb_def)
  then have r: "reachable ?s" by (rule reachable.step)
  have a: "map r_id (reminders ?s) = [''r1'', ''r2'', ''r3'', ''3600002-7fh2kd9s1'']
      \<and> map a_id (appointments ?s) = [''a1'', ''a2'', ''3600000-k3j9x2m1q'']
      \<and> map m_id (medications ?s) = [''m1'', ''m2'']"
    apply (simp only: exec_AddAppointment loadData_clinic)
    apply (simp add: addAppointment_def sampleAppointment_def clinicDb_def sample_records
        sampleEnv_simps eval_steps)
    apply (simp add: sampleEnv_simps eval_reminder)
    done
  from reachable_ids_distinct [OF r] r a show ?thesis by simp
qed

text \<open>Marking the appointment missed succeeds, and the reminder related to it is still
  pending.\<close>

theorem marking_missed_counterexample:
  "fst (markAppointmentMissed (updateAppointment sampleEnv) visit carePlan) = Inr ()
   \<and> appointments (snd (markAppointmentMissed (updateAppointment sampleEnv) visit carePlan))
        = [visit\<lparr>a_status := AppointmentMissed\<rparr>]
   \<and> reminders (snd (markAppointmentMissed (updateAppointment sampleEnv) visit carePlan))
        = [pillReminder, visitReminder, looseReminder]
   \<and> relatedId visitReminder = Some (a_id visit)
   \<and> r_status visitReminder = Pending"
  by (simp add: markAppointmentMissed_def updateAppointment_run sampleEnv_simps carePlan_def
      sample_records)

text \<open>The one way to a missed reminder: the caller passes one to \<^verbatim>\<open>updateReminder\<close>.\<close>

theorem missed_only_from_caller_witness:
  "fst (markAppointmentMissed (updateAppointment sampleEnv) visit carePlan) = Inr ()
   \<and> appointments (snd (markAppointmentMissed (updateAppointment sampleEnv) visit carePlan))
        = [visit\<lparr>a_status := AppointmentMissed\<rparr>]
   \<and> visitReminder\<lparr>r_status := Missed\<rparr>
        \<in> set (reminders (snd (exec sampleEnv (UpdateReminder (visitReminder\<lparr>r_status := Missed\<rparr>)) carePlan)))
   \<and> r_status (visitReminder\<lparr>r_status := Missed\<rparr>) = Missed
   \<and> visitReminder\<lparr>r_status := Missed\<rparr> \<notin> set (reminders carePlan)
   \<and> visitReminder\<lparr>r_status := Missed\<rparr> \<notin> set (db_reminders carePlan)"
proof -
  have f: "fst (markAppointmentMissed (updateAppointment sampleEnv) visit carePlan) = Inr ()"
    by (simp add: markAppointmentMissed_def updateAppointment_run sampleEnv_simps)
  have m: "visitReminder\<lparr>r_status := Missed\<rparr>
        \<in> set (reminders (snd (exec sampleEnv (UpdateReminder (visitReminder\<lparr>r_status := Missed\<rparr>)) carePlan)))"
    by (simp add: updateReminder_run sampleEnv_simps carePlan_def sample_records)
  have n: "visitReminder\<lparr>r_status := Missed\<rparr> \<notin> set (reminders carePlan)"
      "visitReminder\<lparr>r_status := Missed\<rparr> \<notin> set (db_reminders carePlan)"
    by (simp_all add: carePlan_def sample_records)
  from missed_only_from_caller
         [of sampleEnv visit carePlan "visitReminder\<lparr>r_status := Missed\<rparr>"
             "UpdateReminder (visitReminder\<lparr>r_status := Missed\<rparr>)"] f m n
  show ?thesis by (simp add: carePlan_def sample_records)
qed

text \<open>With a parent whose \<^verbatim>\<open>onAction\<close> does nothing, the snoozed reminder is still
  pending, with snooze count 0 and no snoozed-until time.\<close>

theorem snooze_counterexample:
  "snd (handleAction (\<lambda>action reminder w. w) pillReminder Snooze (closedModal, carePlan)) = carePlan
   \<and> pillReminder \<in> set (reminders carePlan)
   \<and> r_status pillReminder = Pending \<and> snoozeCount pillReminder = 0
   \<and> snoozedUntil pillReminder = None"
  by (simp add: handleAction_def carePlan_def sample_records)

text \<open>With a parent that logs what it is handed, and the number itself as time format.\<close>

theorem snooze_hands_over_witness:
  "handleAction (\<lambda>action reminder w. w @ [(action, reminder)]) pillReminder Snooze (closedModal, [])
     = (\<lparr> selectedAction = Some Snooze, isConfirmed = True, closeTimer = Some 2000 \<rparr>,
        [(Snooze, pillReminder)])
   \<and> getConfirmationMessage numberToString 3600000 pillReminder
        \<lparr> selectedAction = Some Snooze, isConfirmed = True, closeTimer = Some 2000 \<rparr>
       = alarmClock @ '' Snoozed! I'' @ [CHR 0x27] @ ''ll remind you again at 4500000''"
proof -
  have h: "handleAction (\<lambda>action reminder w. w @ [(action, reminder)]) pillReminder Snooze (closedModal, [])
     = (\<lparr> selectedAction = Some Snooze, isConfirmed = True, closeTimer = Some 2000 \<rparr>,
        [(Snooze, pillReminder)])"
    by (simp add: handleAction_def closedModal_def)
  have n: "numberToString 4500000 = ''4500000''"
    by (simp add: numberToString_def digits.simps digitChar_def)
  from snooze_hands_over
         [of "\<lambda>action reminder w. w @ [(action, reminder)]" pillReminder closedModal "[]"
             "\<lparr> selectedAction = Some Snooze, isConfirmed = True, closeTimer = Some 2000 \<rparr>"
             "[(Snooze, pillReminder)]" numberToString 3600000] h n
  show ?thesis by simp
qed

end
